theory Spec2Isabelle
  imports Complex_Main "HOL-Library.Word"
begin

unbundle bit_operations_syntax

section \<open>Numeric model\<close>

text \<open>
  The program computes in C++ \<^verbatim>\<open>float\<close> and \<^verbatim>\<open>double\<close>. Both are modelled by
  \<^typ>\<open>real\<close>: every arithmetic operation is the exact one, so rounding, overflow to
  infinity and NaN are not represented: a value stands for the real number it is the
  rounding of. Decimal literals of the source stand for the rational they denote, except
  the constant \<open>PI_F\<close>, which stands for \<open>pi\<close> (see there). \<^verbatim>\<open>int\<close> arguments are
  \<^typ>\<open>int\<close>, the \<^verbatim>\<open>UByte\<close> movement masks are 8-bit words.
\<close>

text \<open>
  The C library functions \<^verbatim>\<open>asin\<close> and \<^verbatim>\<open>atan2\<close> by their mathematical
  meaning (\<^verbatim>\<open>atan2(0, 0)\<close> is 0, as for positive zeros).
\<close>

definition asin :: "real \<Rightarrow> real" where
  "asin s = arcsin s"

definition atan2 :: "real \<Rightarrow> real \<Rightarrow> real" where
  "atan2 b a =
     (if 0 < a then arctan (b / a)
      else if a < 0 then (if 0 \<le> b then arctan (b / a) + pi else arctan (b / a) - pi)
      else if 0 < b then pi / 2
      else if b < 0 then - (pi / 2)
      else 0)"

section \<open>Vectors and matrices of the math library\<close>

datatype Vector3f = Vector3f (vec_x: real) (vec_y: real) (vec_z: real)

definition vadd :: "Vector3f \<Rightarrow> Vector3f \<Rightarrow> Vector3f" where
  "vadd u v = Vector3f (vec_x u + vec_x v) (vec_y u + vec_y v) (vec_z u + vec_z v)"

definition vsub :: "Vector3f \<Rightarrow> Vector3f \<Rightarrow> Vector3f" where
  "vsub u v = Vector3f (vec_x u - vec_x v) (vec_y u - vec_y v) (vec_z u - vec_z v)"

definition vneg :: "Vector3f \<Rightarrow> Vector3f" where
  "vneg v = Vector3f (- vec_x v) (- vec_y v) (- vec_z v)"

definition vscale :: "Vector3f \<Rightarrow> real \<Rightarrow> Vector3f" where
  "vscale v k = Vector3f (vec_x v * k) (vec_y v * k) (vec_z v * k)"

definition LengthSq :: "Vector3f \<Rightarrow> real" where
  "LengthSq v = vec_x v * vec_x v + vec_y v * vec_y v + vec_z v * vec_z v"

definition Length :: "Vector3f \<Rightarrow> real" where
  "Length v = sqrt (LengthSq v)"

text \<open>
  Modelled from the spec: \<^verbatim>\<open>Vector3f::Normalize\<close> belongs to the math library, which is
  not part of the sources; the spec says the local movement vector is normalized "to avoid
  faster diagonal movement", that is, divided by its length.
\<close>

definition Normalize :: "Vector3f \<Rightarrow> Vector3f" where
  "Normalize v = Vector3f (vec_x v / Length v) (vec_y v / Length v) (vec_z v / Length v)"

type_synonym vec4 = "real \<times> real \<times> real \<times> real"
type_synonym Matrix4f = "vec4 \<times> vec4 \<times> vec4 \<times> vec4"

fun dot4 :: "vec4 \<Rightarrow> vec4 \<Rightarrow> real" where
  "dot4 (a0, a1, a2, a3) (b0, b1, b2, b3) = a0 * b0 + a1 * b1 + a2 * b2 + a3 * b3"

fun columns :: "Matrix4f \<Rightarrow> Matrix4f" where
  "columns ((a0, a1, a2, a3), (b0, b1, b2, b3), (c0, c1, c2, c3), (d0, d1, d2, d3)) =
     ((a0, b0, c0, d0), (a1, b1, c1, d1), (a2, b2, c2, d2), (a3, b3, c3, d3))"

fun row_times :: "vec4 \<Rightarrow> Matrix4f \<Rightarrow> vec4" where
  "row_times r (c0, c1, c2, c3) = (dot4 r c0, dot4 r c1, dot4 r c2, dot4 r c3)"

text \<open>
  Modelled from the spec: the matrix product, the three axis rotations and
  \<^verbatim>\<open>Matrix4f::Transform\<close> belong to the math library, which is not part of the
  sources. The spec fixes a right-handed, Y-up, -Z-forward world, yaw about Y, pitch
  about X and roll about Z, and the header says yaw is "CCW positive when looking at RHS
  (X,Z) plane": these are the standard right-handed rotation matrices, and
  \<^verbatim>\<open>Transform\<close> applies the upper three rows to a point.
\<close>

fun mat_mul :: "Matrix4f \<Rightarrow> Matrix4f \<Rightarrow> Matrix4f" where
  "mat_mul (r0, r1, r2, r3) B =
     (row_times r0 (columns B), row_times r1 (columns B),
      row_times r2 (columns B), row_times r3 (columns B))"

definition RotationX :: "real \<Rightarrow> Matrix4f" where
  "RotationX t = ((1, 0, 0, 0), (0, cos t, - sin t, 0), (0, sin t, cos t, 0), (0, 0, 0, 1))"

definition RotationY :: "real \<Rightarrow> Matrix4f" where
  "RotationY t = ((cos t, 0, sin t, 0), (0, 1, 0, 0), (- sin t, 0, cos t, 0), (0, 0, 0, 1))"

definition RotationZ :: "real \<Rightarrow> Matrix4f" where
  "RotationZ t = ((cos t, - sin t, 0, 0), (sin t, cos t, 0, 0), (0, 0, 1, 0), (0, 0, 0, 1))"

fun Transform :: "Matrix4f \<Rightarrow> Vector3f \<Rightarrow> Vector3f" where
  "Transform (r0, r1, r2, r3) v =
     Vector3f (dot4 r0 (vec_x v, vec_y v, vec_z v, 1))
              (dot4 r1 (vec_x v, vec_y v, vec_z v, 1))
              (dot4 r2 (vec_x v, vec_y v, vec_z v, 1))"

text \<open>
  \<^verbatim>\<open>Matrix4f::LookAtRH\<close> is library code too; no property below looks inside a view
  matrix, so a view matrix is recorded by the three arguments it is built from.
\<close>

datatype view_matrix = Identity_view | LookAtRH Vector3f Vector3f Vector3f

section \<open>Constants of \<^verbatim>\<open>Win32_OculusRoomTiny.h\<close>\<close>

definition UpVector :: Vector3f where
  "UpVector = Vector3f 0 1 0"

definition ForwardVector :: Vector3f where
  "ForwardVector = Vector3f 0 0 (- 1)"

definition RightVector :: Vector3f where
  "RightVector = Vector3f 1 0 0"

definition YawInitial :: real where
  "YawInitial = 3.141592"

definition Sensitivity :: real where
  "Sensitivity = 1.0"

definition MoveSpeed :: real where
  "MoveSpeed = 3.0"

section \<open>Application state\<close>

datatype StereoMode = Stereo_None | Stereo_LeftRight_Multipass

datatype StereoEye = StereoEye_Center | StereoEye_Left | StereoEye_Right

datatype PostProcessType = PostProcess_None | PostProcess_Distortion

datatype PostProcessShader = PostProcessShader_Distortion | PostProcessShader_DistortionAndChromAb

text \<open>
  Calls into collaborators that have no effect on the application's own fields are kept
  in a call log, in the order they are made: log output, the sensor-fusion reset, one
  \<^verbatim>\<open>Render\<close> per eye, \<^verbatim>\<open>Present\<close> and \<^verbatim>\<open>ForceFlushGPU\<close>.
\<close>

datatype call =
    LogText string
  | SFusion_Reset
  | Render StereoEye PostProcessType view_matrix
  | Present
  | ForceFlushGPU

text \<open>The packed stream packet \<^verbatim>\<open>struct { float quat[4]; }\<close>.\<close>

type_synonym tss_stream_packet = "real \<times> real \<times> real \<times> real"

text \<open>
  The fields of \<^verbatim>\<open>OculusRoomTinyApp\<close> that the input handlers and the frame function
  read or write, with the file-scope variables \<^verbatim>\<open>tss_isStreaming\<close> and
  \<^verbatim>\<open>tss_packet\<close>. \<open>pSensor\<close> is whether the smart pointer is non-null;
  \<open>SConfig_Mode\<close> and \<open>SConfig_IPD\<close> are the two settings of \<^verbatim>\<open>SConfig\<close> the handlers touch,
  \<open>Shader\<close> is the render device's post-process shader.
\<close>

record app =
  pSensor :: bool
  tss_isStreaming :: bool
  tss_packet :: tss_stream_packet
  LastUpdate :: real
  EyePos :: Vector3f
  EyeYaw :: real
  EyePitch :: real
  EyeRoll :: real
  LastSensorYaw :: real
  MoveForward :: "8 word"
  MoveBack :: "8 word"
  MoveLeft :: "8 word"
  MoveRight :: "8 word"
  GamepadMove :: Vector3f
  GamepadRotate :: Vector3f
  View :: view_matrix
  SConfig_Mode :: StereoMode
  SConfig_IPD :: real
  PostProcess :: PostProcessType
  Shader :: PostProcessShader
  ShiftDown :: bool
  ControlDown :: bool
  Quit :: bool
  Calls :: "call list"

text \<open>
  The constructor. The stereo mode, IPD and shader a fresh \<^verbatim>\<open>StereoConfig\<close> and render
  device start with are decided by the library, so they are parameters. The stream packet
  is a zero-initialised global.
\<close>

definition OculusRoomTinyApp :: "StereoMode \<Rightarrow> real \<Rightarrow> PostProcessShader \<Rightarrow> app" where
  "OculusRoomTinyApp mode0 ipd0 shader0 =
     \<lparr> pSensor = False, tss_isStreaming = False, tss_packet = (0, 0, 0, 0),
       LastUpdate = 0,
       EyePos = Vector3f 0.0 1.6 (- 5.0),
       EyeYaw = YawInitial, EyePitch = 0, EyeRoll = 0,
       LastSensorYaw = 0,
       MoveForward = 0, MoveBack = 0, MoveLeft = 0, MoveRight = 0,
       GamepadMove = Vector3f 0 0 0, GamepadRotate = Vector3f 0 0 0,
       View = Identity_view,
       SConfig_Mode = mode0, SConfig_IPD = ipd0,
       PostProcess = PostProcess_Distortion,
       Shader = shader0,
       ShiftDown = False, ControlDown = False, Quit = False,
       Calls = [] \<rparr>"

text \<open>
  What a successful \<^verbatim>\<open>OnStartup\<close> leaves in these fields: whether a sensor was found,
  whether the ThreeSpace stream was started, the stereo mode it sets and the time of the
  first update. Device detection, window and renderer creation are outside the model.
\<close>

definition OnStartup :: "bool \<Rightarrow> bool \<Rightarrow> real \<Rightarrow> app \<Rightarrow> app" where
  "OnStartup sensor streaming t0 a =
     a\<lparr> tss_isStreaming := streaming, pSensor := sensor,
        SConfig_Mode := Stereo_LeftRight_Multipass, LastUpdate := t0 \<rparr>"

section \<open>Input handlers\<close>

definition OnGamepad :: "real \<Rightarrow> real \<Rightarrow> real \<Rightarrow> real \<Rightarrow> app \<Rightarrow> app" where
  "OnGamepad padLx padLy padRx padRy a =
     a\<lparr> GamepadMove := Vector3f (padLx * padLx * (if padLx > 0 then 1 else - 1))
                                0
                                (padLy * padLy * (if padLy > 0 then - 1 else 1)),
        GamepadRotate := Vector3f (2 * padRx) (- 2 * padRy) 0 \<rparr>"

definition maxPitch :: real where
  "maxPitch = (3.1415 / 2) * 0.98"

definition clamp_pitch :: "real \<Rightarrow> real" where
  "clamp_pitch p =
     (let p1 = (if p > maxPitch then maxPitch else p)
      in if p1 < - maxPitch then - maxPitch else p1)"

definition OnMouseMove :: "int \<Rightarrow> int \<Rightarrow> int \<Rightarrow> app \<Rightarrow> app" where
  "OnMouseMove mx my modifiers a =
     (let dx = mx; dy = my;
          a1 = a\<lparr> EyeYaw := EyeYaw a - (Sensitivity * real_of_int dx) / 360.0 \<rparr>
      in if \<not> pSensor a1
         then a1\<lparr> EyePitch := clamp_pitch (EyePitch a1 - (Sensitivity * real_of_int dy) / 360.0) \<rparr>
         else a1)"

text \<open>Virtual-key codes of the Windows headers, and the character codes of the letters.\<close>

definition VK_ESCAPE :: nat where "VK_ESCAPE = 0x1B"
definition VK_UP :: nat where "VK_UP = 0x26"
definition VK_DOWN :: nat where "VK_DOWN = 0x28"
definition VK_F1 :: nat where "VK_F1 = 0x70"
definition VK_F2 :: nat where "VK_F2 = 0x71"
definition VK_F3 :: nat where "VK_F3 = 0x72"
definition VK_OEM_PLUS :: nat where "VK_OEM_PLUS = 0xBB"
definition VK_INSERT :: nat where "VK_INSERT = 0x2D"
definition VK_OEM_MINUS :: nat where "VK_OEM_MINUS = 0xBD"
definition VK_DELETE :: nat where "VK_DELETE = 0x2E"
definition VK_SHIFT :: nat where "VK_SHIFT = 0x10"
definition VK_CONTROL :: nat where "VK_CONTROL = 0x11"
definition key_Q :: nat where "key_Q = 0x51"
definition key_W :: nat where "key_W = 0x57"
definition key_S :: nat where "key_S = 0x53"
definition key_A :: nat where "key_A = 0x41"
definition key_D :: nat where "key_D = 0x44"
definition key_R :: nat where "key_R = 0x52"
definition key_P :: nat where "key_P = 0x50"

definition set_bit_if :: "bool \<Rightarrow> 8 word \<Rightarrow> 8 word \<Rightarrow> 8 word" where
  "set_bit_if down m b = (if down then m OR b else m AND NOT b)"

definition OnKey :: "nat \<Rightarrow> bool \<Rightarrow> app \<Rightarrow> app" where
  "OnKey vk down a =
     (if vk = key_Q then (if down \<and> ControlDown a then a\<lparr> Quit := True \<rparr> else a)
      else if vk = VK_ESCAPE then (if \<not> down then a\<lparr> Quit := True \<rparr> else a)
      else if vk = key_W then a\<lparr> MoveForward := set_bit_if down (MoveForward a) 1 \<rparr>
      else if vk = key_S then a\<lparr> MoveBack := set_bit_if down (MoveBack a) 1 \<rparr>
      else if vk = key_A then a\<lparr> MoveLeft := set_bit_if down (MoveLeft a) 1 \<rparr>
      else if vk = key_D then a\<lparr> MoveRight := set_bit_if down (MoveRight a) 1 \<rparr>
      else if vk = VK_UP then a\<lparr> MoveForward := set_bit_if down (MoveForward a) 2 \<rparr>
      else if vk = VK_DOWN then a\<lparr> MoveBack := set_bit_if down (MoveBack a) 2 \<rparr>
      else if vk = key_R then a\<lparr> Calls := Calls a @ [SFusion_Reset] \<rparr>
      else if vk = key_P then
        (if down
         then (case Shader a of
                 PostProcessShader_Distortion \<Rightarrow>
                   a\<lparr> Shader := PostProcessShader_DistortionAndChromAb \<rparr>
               | PostProcessShader_DistortionAndChromAb \<Rightarrow>
                   a\<lparr> Shader := PostProcessShader_Distortion \<rparr>)
         else a)
      else if vk = VK_F1 then a\<lparr> SConfig_Mode := Stereo_None, PostProcess := PostProcess_None \<rparr>
      else if vk = VK_F2 then
        a\<lparr> SConfig_Mode := Stereo_LeftRight_Multipass, PostProcess := PostProcess_None \<rparr>
      else if vk = VK_F3 then
        a\<lparr> SConfig_Mode := Stereo_LeftRight_Multipass, PostProcess := PostProcess_Distortion \<rparr>
      else if vk = VK_OEM_PLUS \<or> vk = VK_INSERT then
        (if down then a\<lparr> SConfig_IPD := SConfig_IPD a + 0.0005 * (if ShiftDown a then 5.0 else 1.0) \<rparr> else a)
      else if vk = VK_OEM_MINUS \<or> vk = VK_DELETE then
        (if down then a\<lparr> SConfig_IPD := SConfig_IPD a - 0.0005 * (if ShiftDown a then 5.0 else 1.0) \<rparr> else a)
      else if vk = VK_SHIFT then a\<lparr> ShiftDown := down \<rparr>
      else if vk = VK_CONTROL then a\<lparr> ControlDown := down \<rparr>
      else a)"

section \<open>The frame function \<^verbatim>\<open>OnIdle\<close>\<close>

text \<open>
  What one frame reads from outside the application: the clock, the yaw, pitch and roll
  that \<^verbatim>\<open>GetEulerAngles\<close> extracts from the sensor-fusion orientation (library code),
  and the outcome of \<^verbatim>\<open>tss_getLatestStreamData\<close>: its return code and what it stored
  in the packet buffer (\<open>None\<close> when it stored nothing). The two are independent inputs,
  since the source says nothing on what the call does to the buffer when it fails.
\<close>

record frame_input =
  curtime :: real
  hmd_euler :: "real \<times> real \<times> real"
  tss_error :: int
  tss_written :: "tss_stream_packet option"

text \<open>
  \<^verbatim>\<open>const float PI_F = 3.14159265358979f\<close>. The value of this constant in the program
  is the single-precision number \<open>13176795 / 2\<^sup>2\<^sup>2\<close>, which is the single-precision number
  nearest to \<open>pi\<close> as well as to the literal (lemma \<open>PI_F_single_precision\<close> below). As
  rounding is not modelled, the constant is the real number it is the rounding of,
  \<open>pi\<close>, in the same way as \<^verbatim>\<open>asin\<close> and \<^verbatim>\<open>atan2\<close> are the exact functions.
\<close>

definition PI_F :: real where
  "PI_F = pi"

text \<open>
  The decomposition of the streamed quaternion (the block that fills \<^verbatim>\<open>rotator\<close>). The
  result carries the three angles and, beside them, the arguments with which
  \<^verbatim>\<open>asin\<close> was called on the way.
\<close>

definition tss_rotator :: "tss_stream_packet \<Rightarrow> (real \<times> real \<times> real) \<times> real list" where
  "tss_rotator pkt =
     (case pkt of (x, y, z, w) \<Rightarrow>
        let s = 2.0 * (w * y - x * z) in
        if s < 1.0 then
          if - 1.0 < s then
            ((atan2 (2.0 * (x * y + w * z)) (1.0 - 2.0 * (y * y + z * z)),
              asin s,
              atan2 (2.0 * (y * z + w * x)) (1.0 - 2.0 * (x * x + y * y))), [s])
          else
            ((0, - PI_F / 2, - atan2 (2.0 * (x * y - w * z)) (1.0 - 2.0 * (x * x + z * z))), [])
        else
          ((0, PI_F / 2, atan2 (2.0 * (x * y - w * z)) (1.0 - 2.0 * (x * x + z * z))), []))"

text \<open>The block guarded by \<^verbatim>\<open>if (pSensor)\<close>.\<close>

definition sensor_step :: "frame_input \<Rightarrow> app \<Rightarrow> app" where
  "sensor_step inp a =
     (if pSensor a then
        (case hmd_euler inp of (yaw, pitch, roll) \<Rightarrow>
           a\<lparr> EyePitch := pitch, EyeRoll := roll,
              EyeYaw := EyeYaw a + (yaw - LastSensorYaw a),
              LastSensorYaw := yaw \<rparr>)
      else a)"

text \<open>
  The block guarded by \<^verbatim>\<open>if (tss_isStreaming)\<close>. A non-zero return code is logged and
  nothing else depends on it: the packet buffer is decomposed in every case.
\<close>

definition tss_step :: "frame_input \<Rightarrow> app \<Rightarrow> app" where
  "tss_step inp a =
     (if tss_isStreaming a then
        (let pkt = (case tss_written inp of None \<Rightarrow> tss_packet a | Some p \<Rightarrow> p);
             logged = (if tss_error inp \<noteq> 0
                       then [LogText ''TSS: getLatestStreamData error''] else [])
         in case fst (tss_rotator pkt) of (yaw, pitch, roll) \<Rightarrow>
              a\<lparr> tss_packet := pkt,
                 Calls := Calls a @ logged,
                 EyePitch := pitch, EyeRoll := roll,
                 EyeYaw := EyeYaw a + (yaw - LastSensorYaw a),
                 LastSensorYaw := yaw \<rparr>)
      else a)"

text \<open>Gamepad rotation: yaw always, pitch only with no tracker at all.\<close>

definition gamepad_step :: "real \<Rightarrow> app \<Rightarrow> app" where
  "gamepad_step dt a =
     (let a1 = a\<lparr> EyeYaw := EyeYaw a - vec_x (GamepadRotate a) * dt \<rparr>
      in if \<not> pSensor a1 \<and> \<not> tss_isStreaming a1
         then a1\<lparr> EyePitch := clamp_pitch (EyePitch a1 - vec_y (GamepadRotate a1) * dt) \<rparr>
         else a1)"

text \<open>Keyboard movement, else gamepad movement.\<close>

definition localMoveVector :: "app \<Rightarrow> Vector3f" where
  "localMoveVector a =
     (let v0 = Vector3f 0 0 0;
          v1 = (if MoveForward a \<noteq> 0 then ForwardVector
                else if MoveBack a \<noteq> 0 then vneg ForwardVector
                else v0);
          v2 = (if MoveRight a \<noteq> 0 then vadd v1 RightVector
                else if MoveLeft a \<noteq> 0 then vsub v1 RightVector
                else v1)
      in Normalize v2)"

definition move_step :: "real \<Rightarrow> app \<Rightarrow> app" where
  "move_step dt a =
     (if MoveForward a \<noteq> 0 \<or> MoveBack a \<noteq> 0 \<or> MoveLeft a \<noteq> 0 \<or> MoveRight a \<noteq> 0 then
        (let yawRotate = RotationY (EyeYaw a);
             orientationVector =
               vscale (Transform yawRotate (localMoveVector a))
                      (MoveSpeed * dt * (if ShiftDown a then 3.0 else 1.0))
         in a\<lparr> EyePos := vadd (EyePos a) orientationVector \<rparr>)
      else if LengthSq (GamepadMove a) > 0 then
        (let yawRotate = RotationY (EyeYaw a);
             orientationVector = vscale (Transform yawRotate (GamepadMove a)) (MoveSpeed * dt)
         in a\<lparr> EyePos := vadd (EyePos a) orientationVector \<rparr>)
      else a)"

text \<open>The view: full rotation, minimal head model, look-at matrix.\<close>

definition rollPitchYaw :: "app \<Rightarrow> Matrix4f" where
  "rollPitchYaw a =
     mat_mul (mat_mul (RotationY (EyeYaw a)) (RotationX (EyePitch a))) (RotationZ (EyeRoll a))"

definition headBaseToEyeHeight :: real where
  "headBaseToEyeHeight = 0.15"

definition headBaseToEyeProtrusion :: real where
  "headBaseToEyeProtrusion = 0.09"

definition eyeCenterInHeadFrame :: Vector3f where
  "eyeCenterInHeadFrame = Vector3f 0.0 headBaseToEyeHeight (- headBaseToEyeProtrusion)"

definition shiftedEyePos :: "app \<Rightarrow> Vector3f" where
  "shiftedEyePos a =
     (let p = vadd (EyePos a) (Transform (rollPitchYaw a) eyeCenterInHeadFrame)
      in Vector3f (vec_x p) (vec_y p - vec_y eyeCenterInHeadFrame) (vec_z p))"

definition view_step :: "app \<Rightarrow> app" where
  "view_step a =
     (let up = Transform (rollPitchYaw a) UpVector;
          forward = Transform (rollPitchYaw a) ForwardVector
      in a\<lparr> View := LookAtRH (shiftedEyePos a) (vadd (shiftedEyePos a) forward) up \<rparr>)"

text \<open>
  The end of the frame: one \<^verbatim>\<open>Render\<close> per eye of the stereo mode, then
  \<^verbatim>\<open>Present\<close> and \<^verbatim>\<open>ForceFlushGPU\<close>.
\<close>

definition frame_calls :: "app \<Rightarrow> call list" where
  "frame_calls a =
     map (\<lambda>e. Render e (PostProcess a) (View a))
       (case SConfig_Mode a of
          Stereo_None \<Rightarrow> [StereoEye_Center]
        | Stereo_LeftRight_Multipass \<Rightarrow> [StereoEye_Left, StereoEye_Right])
     @ [Present, ForceFlushGPU]"

definition render_step :: "app \<Rightarrow> app" where
  "render_step a = a\<lparr> Calls := Calls a @ frame_calls a \<rparr>"

definition OnIdle :: "frame_input \<Rightarrow> app \<Rightarrow> app" where
  "OnIdle inp a =
     (let dt = curtime inp - LastUpdate a;
          a0 = a\<lparr> LastUpdate := curtime inp \<rparr>
      in render_step (view_step (move_step dt (gamepad_step dt (tss_step inp (sensor_step inp a0))))))"

section \<open>The message loop\<close>

text \<open>
  \<^verbatim>\<open>Run\<close> dispatches window messages to the handlers and otherwise polls the gamepad
  and calls \<^verbatim>\<open>OnIdle\<close>, until \<open>Quit\<close> is set. The model runs it over a finite list of
  what arrives.
\<close>

datatype event =
    Gamepad real real real real
  | MouseMove int int
  | Key nat bool
  | Idle frame_input

fun dispatch :: "event \<Rightarrow> app \<Rightarrow> app" where
  "dispatch (Gamepad lx ly rx ry) a = OnGamepad lx ly rx ry a"
| "dispatch (MouseMove dx dy) a = OnMouseMove dx dy 0 a"
| "dispatch (Key vk down) a = OnKey vk down a"
| "dispatch (Idle inp) a = OnIdle inp a"

fun Run :: "event list \<Rightarrow> app \<Rightarrow> app" where
  "Run [] a = a"
| "Run (e # es) a = (if Quit a then a else Run es (dispatch e a))"

section \<open>Bounds on \<open>pi\<close>\<close>

text \<open>
  Partial sums of the alternating arctangent series enclose the arctangent; with Machin's
  formula they enclose \<open>pi\<close>.
\<close>

lemma arctan_partial_sums:
  fixes x :: real
  assumes x0: "0 \<le> x" and x1: "x \<le> 1"
  shows "(\<Sum>k<2 * n. (- 1) ^ k * (1 / real (k * 2 + 1) * x ^ (k * 2 + 1))) \<le> arctan x"
    and "arctan x \<le> (\<Sum>k<2 * n + 1. (- 1) ^ k * (1 / real (k * 2 + 1) * x ^ (k * 2 + 1)))"
proof -
  let ?a = "\<lambda>k. 1 / real (k * 2 + 1) * x ^ (k * 2 + 1)"
  have ax: "\<bar>x\<bar> \<le> 1" using x0 x1 by simp
  have z: "?a \<longlonglongrightarrow> 0" using zeroseq_arctan_series [OF ax] .
  have p: "\<And>k. 0 \<le> ?a k" using x0 by simp
  have m: "\<And>k. ?a (Suc k) \<le> ?a k"
  proof -
    fix k
    have "x ^ (Suc k * 2 + 1) \<le> x ^ (k * 2 + 1)"
      using x0 x1 by (intro power_decreasing) simp_all
    moreover have "1 / real (Suc k * 2 + 1) \<le> 1 / real (k * 2 + 1)"
      by (simp add: field_simps)
    ultimately show "?a (Suc k) \<le> ?a k"
      using x0 by (intro mult_mono) simp_all
  qed
  have s: "arctan x = (\<Sum>k. (- 1) ^ k * ?a k)" using arctan_series [OF ax] .
  show "(\<Sum>k<2 * n. (- 1) ^ k * ?a k) \<le> arctan x"
    unfolding s using summable_Leibniz'(2) [of ?a, OF z p m] .
  show "arctan x \<le> (\<Sum>k<2 * n + 1. (- 1) ^ k * ?a k)"
    unfolding s using summable_Leibniz'(4) [of ?a, OF z p m] .
qed

lemma pi_lower: "3.14159265358979 < pi"
proof -
  have a: "pi = 16 * arctan (1 / 5) - 4 * arctan (1 / 239)" using machin by simp
  show ?thesis
    unfolding a
    using arctan_partial_sums(1) [of "1/5" 6] arctan_partial_sums(2) [of "1/239" 2]
    by (simp add: eval_nat_numeral)
qed

lemma pi_upper: "pi < 3.1415927"
proof -
  have a: "pi = 16 * arctan (1 / 5) - 4 * arctan (1 / 239)" using machin by simp
  show ?thesis
    unfolding a
    using arctan_partial_sums(2) [of "1/5" 3] arctan_partial_sums(1) [of "1/239" 1]
    by (simp add: eval_nat_numeral)
qed

text \<open>
  Single-precision numbers between 2 and 4 are the multiples of \<open>2\<^sup>-\<^sup>2\<^sup>2\<close>. The multiple
  \<open>13176795 / 2\<^sup>2\<^sup>2\<close> is less than half a step away from \<open>pi\<close>, and from the literal
  \<open>3.14159265358979\<close>: it is the single-precision number nearest to both.
\<close>

lemma PI_F_single_precision:
  "\<bar>13176795 / 2 ^ 22 - pi\<bar> < 1 / 2 ^ 23 \<and>
   \<bar>13176795 / 2 ^ 22 - (3.14159265358979 :: real)\<bar> < 1 / 2 ^ 23 \<and>
   \<bar>13176795 / 2 ^ 22 - PI_F\<bar> < 1 / 2 ^ 23"
  using pi_lower pi_upper by (simp add: PI_F_def abs_less_iff)

section \<open>The frame, step by step\<close>

lemma tss_rotator_cases:
  "tss_rotator (x, y, z, w) =
     (if 2 * (w * y - x * z) < 1 then
        if - 1 < 2 * (w * y - x * z) then
          ((atan2 (2 * (x * y + w * z)) (1 - 2 * (y * y + z * z)),
            asin (2 * (w * y - x * z)),
            atan2 (2 * (y * z + w * x)) (1 - 2 * (x * x + y * y))), [2 * (w * y - x * z)])
        else ((0, - PI_F / 2, - atan2 (2 * (x * y - w * z)) (1 - 2 * (x * x + z * z))), [])
      else ((0, PI_F / 2, atan2 (2 * (x * y - w * z)) (1 - 2 * (x * x + z * z))), []))"
  by (simp add: tss_rotator_def Let_def)

lemma sensor_step_off: "\<not> pSensor a \<Longrightarrow> sensor_step inp a = a"
  by (simp add: sensor_step_def)

lemma tss_step_off: "\<not> tss_isStreaming a \<Longrightarrow> tss_step inp a = a"
  by (simp add: tss_step_def)

lemma sensor_step_yaw:
  "EyeYaw (sensor_step inp a) - EyeYaw a = LastSensorYaw (sensor_step inp a) - LastSensorYaw a"
  by (simp add: sensor_step_def split: prod.splits)

lemma tss_step_yaw:
  "EyeYaw (tss_step inp a) - EyeYaw a = LastSensorYaw (tss_step inp a) - LastSensorYaw a"
  by (simp add: tss_step_def Let_def split: prod.splits)

lemma sensor_step_fields:
  "pSensor (sensor_step inp a) = pSensor a"
  "tss_isStreaming (sensor_step inp a) = tss_isStreaming a"
  "tss_packet (sensor_step inp a) = tss_packet a"
  "EyePos (sensor_step inp a) = EyePos a"
  "GamepadRotate (sensor_step inp a) = GamepadRotate a"
  "GamepadMove (sensor_step inp a) = GamepadMove a"
  "MoveForward (sensor_step inp a) = MoveForward a"
  "MoveBack (sensor_step inp a) = MoveBack a"
  "MoveLeft (sensor_step inp a) = MoveLeft a"
  "MoveRight (sensor_step inp a) = MoveRight a"
  "ShiftDown (sensor_step inp a) = ShiftDown a"
  "Calls (sensor_step inp a) = Calls a"
  "LastSensorYaw (sensor_step inp a) = (if pSensor a then fst (hmd_euler inp) else LastSensorYaw a)"
  by (simp_all add: sensor_step_def split: prod.splits)

lemma tss_step_fields:
  "pSensor (tss_step inp a) = pSensor a"
  "tss_isStreaming (tss_step inp a) = tss_isStreaming a"
  "EyePos (tss_step inp a) = EyePos a"
  "GamepadRotate (tss_step inp a) = GamepadRotate a"
  "GamepadMove (tss_step inp a) = GamepadMove a"
  "MoveForward (tss_step inp a) = MoveForward a"
  "MoveBack (tss_step inp a) = MoveBack a"
  "MoveLeft (tss_step inp a) = MoveLeft a"
  "MoveRight (tss_step inp a) = MoveRight a"
  "ShiftDown (tss_step inp a) = ShiftDown a"
  by (simp_all add: tss_step_def Let_def split: prod.splits)

lemma tss_step_on:
  assumes "tss_isStreaming a"
  shows "tss_packet (tss_step inp a) = (case tss_written inp of None \<Rightarrow> tss_packet a | Some p \<Rightarrow> p)"
    and "LastSensorYaw (tss_step inp a) = fst (fst (tss_rotator (tss_packet (tss_step inp a))))"
    and "EyePitch (tss_step inp a) = fst (snd (fst (tss_rotator (tss_packet (tss_step inp a)))))"
    and "EyeRoll (tss_step inp a) = snd (snd (fst (tss_rotator (tss_packet (tss_step inp a)))))"
  using assms by (simp_all add: tss_step_def Let_def split: prod.splits)

lemma gamepad_step_fields:
  "EyeYaw (gamepad_step dt a) = EyeYaw a - vec_x (GamepadRotate a) * dt"
  "EyePitch (gamepad_step dt a) =
     (if \<not> pSensor a \<and> \<not> tss_isStreaming a
      then clamp_pitch (EyePitch a - vec_y (GamepadRotate a) * dt) else EyePitch a)"
  "EyeRoll (gamepad_step dt a) = EyeRoll a"
  "LastSensorYaw (gamepad_step dt a) = LastSensorYaw a"
  "pSensor (gamepad_step dt a) = pSensor a"
  "tss_isStreaming (gamepad_step dt a) = tss_isStreaming a"
  "tss_packet (gamepad_step dt a) = tss_packet a"
  "EyePos (gamepad_step dt a) = EyePos a"
  "GamepadRotate (gamepad_step dt a) = GamepadRotate a"
  "GamepadMove (gamepad_step dt a) = GamepadMove a"
  "MoveForward (gamepad_step dt a) = MoveForward a"
  "MoveBack (gamepad_step dt a) = MoveBack a"
  "MoveLeft (gamepad_step dt a) = MoveLeft a"
  "MoveRight (gamepad_step dt a) = MoveRight a"
  "ShiftDown (gamepad_step dt a) = ShiftDown a"
  "Calls (gamepad_step dt a) = Calls a"
  by (simp_all add: gamepad_step_def Let_def)

lemma move_step_fields:
  "EyeYaw (move_step dt a) = EyeYaw a"
  "EyePitch (move_step dt a) = EyePitch a"
  "EyeRoll (move_step dt a) = EyeRoll a"
  "LastSensorYaw (move_step dt a) = LastSensorYaw a"
  "pSensor (move_step dt a) = pSensor a"
  "tss_isStreaming (move_step dt a) = tss_isStreaming a"
  "tss_packet (move_step dt a) = tss_packet a"
  "GamepadRotate (move_step dt a) = GamepadRotate a"
  "GamepadMove (move_step dt a) = GamepadMove a"
  "Calls (move_step dt a) = Calls a"
  by (simp_all add: move_step_def Let_def)

lemma view_step_fields:
  "EyeYaw (view_step a) = EyeYaw a"
  "EyePitch (view_step a) = EyePitch a"
  "EyeRoll (view_step a) = EyeRoll a"
  "EyePos (view_step a) = EyePos a"
  "LastSensorYaw (view_step a) = LastSensorYaw a"
  "pSensor (view_step a) = pSensor a"
  "tss_isStreaming (view_step a) = tss_isStreaming a"
  "tss_packet (view_step a) = tss_packet a"
  "GamepadRotate (view_step a) = GamepadRotate a"
  "GamepadMove (view_step a) = GamepadMove a"
  "Calls (view_step a) = Calls a"
  by (simp_all add: view_step_def Let_def)

lemma render_step_fields:
  "EyeYaw (render_step a) = EyeYaw a"
  "EyePitch (render_step a) = EyePitch a"
  "EyeRoll (render_step a) = EyeRoll a"
  "EyePos (render_step a) = EyePos a"
  "LastSensorYaw (render_step a) = LastSensorYaw a"
  "pSensor (render_step a) = pSensor a"
  "tss_isStreaming (render_step a) = tss_isStreaming a"
  "tss_packet (render_step a) = tss_packet a"
  "GamepadRotate (render_step a) = GamepadRotate a"
  "GamepadMove (render_step a) = GamepadMove a"
  "View (render_step a) = View a"
  "Calls (render_step a) = Calls a @ frame_calls a"
  "frame_calls (render_step a) = frame_calls a"
  by (simp_all add: render_step_def frame_calls_def)

lemmas step_fields = sensor_step_fields tss_step_fields gamepad_step_fields move_step_fields
  view_step_fields render_step_fields

lemma OnIdle_keeps:
  "pSensor (OnIdle inp a) = pSensor a"
  "tss_isStreaming (OnIdle inp a) = tss_isStreaming a"
  "GamepadRotate (OnIdle inp a) = GamepadRotate a"
  "GamepadMove (OnIdle inp a) = GamepadMove a"
  by (simp_all add: OnIdle_def Let_def step_fields)

lemma OnIdle_yaw_delta:
  "EyeYaw (OnIdle inp a) - EyeYaw a =
     (LastSensorYaw (OnIdle inp a) - LastSensorYaw a)
       - vec_x (GamepadRotate a) * (curtime inp - LastUpdate a)"
proof -
  let ?a0 = "a\<lparr>LastUpdate := curtime inp\<rparr>"
  have "EyeYaw (OnIdle inp a) =
          EyeYaw (tss_step inp (sensor_step inp ?a0))
            - vec_x (GamepadRotate a) * (curtime inp - LastUpdate a)"
    by (simp add: OnIdle_def Let_def step_fields)
  moreover have "LastSensorYaw (OnIdle inp a) = LastSensorYaw (tss_step inp (sensor_step inp ?a0))"
    by (simp add: OnIdle_def Let_def step_fields)
  moreover have "EyeYaw (sensor_step inp ?a0) - EyeYaw a =
                 LastSensorYaw (sensor_step inp ?a0) - LastSensorYaw a"
    using sensor_step_yaw [of inp ?a0] by simp
  ultimately show ?thesis
    using tss_step_yaw [of inp "sensor_step inp ?a0"] by simp
qed

lemma OnIdle_LastSensorYaw:
  "LastSensorYaw (OnIdle inp a) =
     (if tss_isStreaming a
      then fst (fst (tss_rotator (case tss_written inp of None \<Rightarrow> tss_packet a | Some p \<Rightarrow> p)))
      else if pSensor a then fst (hmd_euler inp) else LastSensorYaw a)"
proof -
  let ?b = "sensor_step inp (a\<lparr>LastUpdate := curtime inp\<rparr>)"
  have l: "LastSensorYaw (OnIdle inp a) = LastSensorYaw (tss_step inp ?b)"
    by (simp add: OnIdle_def Let_def step_fields)
  show ?thesis
  proof (cases "tss_isStreaming a")
    case True
    then have "tss_isStreaming ?b" by (simp add: step_fields)
    from tss_step_on(1,2) [OF this, of inp] l True show ?thesis
      by (simp add: step_fields split: option.splits)
  next
    case False
    then have "tss_step inp ?b = ?b" by (simp add: tss_step_off step_fields)
    with l False show ?thesis by (simp add: step_fields)
  qed
qed

lemma OnIdle_pitch_roll_streaming:
  assumes t: "tss_isStreaming a"
  shows "EyePitch (OnIdle inp a) =
           fst (snd (fst (tss_rotator (case tss_written inp of None \<Rightarrow> tss_packet a | Some p \<Rightarrow> p))))"
    and "EyeRoll (OnIdle inp a) =
           snd (snd (fst (tss_rotator (case tss_written inp of None \<Rightarrow> tss_packet a | Some p \<Rightarrow> p))))"
proof -
  let ?b = "sensor_step inp (a\<lparr>LastUpdate := curtime inp\<rparr>)"
  have tb: "tss_isStreaming ?b" using t by (simp add: sensor_step_fields)
  have pk: "tss_packet (tss_step inp ?b) = (case tss_written inp of None \<Rightarrow> tss_packet a | Some p \<Rightarrow> p)"
    using tss_step_on(1) [OF tb, of inp] by (simp add: sensor_step_fields split: option.splits)
  have "EyePitch (OnIdle inp a) = EyePitch (tss_step inp ?b)"
    using t by (simp add: OnIdle_def Let_def step_fields)
  then show "EyePitch (OnIdle inp a) =
           fst (snd (fst (tss_rotator (case tss_written inp of None \<Rightarrow> tss_packet a | Some p \<Rightarrow> p))))"
    using tss_step_on(3) [OF tb, of inp] pk by simp
  have "EyeRoll (OnIdle inp a) = EyeRoll (tss_step inp ?b)"
    by (simp add: OnIdle_def Let_def step_fields)
  then show "EyeRoll (OnIdle inp a) =
           snd (snd (fst (tss_rotator (case tss_written inp of None \<Rightarrow> tss_packet a | Some p \<Rightarrow> p))))"
    using tss_step_on(4) [OF tb, of inp] pk by simp
qed

section \<open>Quaternion decomposition\<close>

text \<open>
  C1. With \<open>s = 2(wy - xz)\<close>: for \<open>-1 < s < 1\<close> the decomposition gives yaw
  \<open>atan2(2(xy+wz), 1-2(y\<^sup>2+z\<^sup>2))\<close>, pitch \<open>asin s\<close> and roll
  \<open>atan2(2(yz+wx), 1-2(x\<^sup>2+y\<^sup>2))\<close>; for \<open>s \<ge> 1\<close> it gives yaw 0, pitch \<open>pi / 2\<close> and roll
  \<open>atan2(2(xy-wz), 1-2(x\<^sup>2+z\<^sup>2))\<close>; for \<open>s \<le> -1\<close> it gives yaw 0, pitch \<open>- pi / 2\<close> and the
  negated roll. This holds of every quaternion, unit or not. The frame stores pitch and
  roll as they are and takes the yaw as the new tracked yaw.
\<close>

theorem tss_rotator_angles:
  "(- 1 < 2 * (w * y - x * z) \<and> 2 * (w * y - x * z) < 1 \<longrightarrow>
      fst (tss_rotator (x, y, z, w)) =
        (atan2 (2 * (x * y + w * z)) (1 - 2 * (y\<^sup>2 + z\<^sup>2)),
         asin (2 * (w * y - x * z)),
         atan2 (2 * (y * z + w * x)) (1 - 2 * (x\<^sup>2 + y\<^sup>2)))) \<and>
   (1 \<le> 2 * (w * y - x * z) \<longrightarrow>
      fst (tss_rotator (x, y, z, w)) =
        (0, pi / 2, atan2 (2 * (x * y - w * z)) (1 - 2 * (x\<^sup>2 + z\<^sup>2)))) \<and>
   (2 * (w * y - x * z) \<le> - 1 \<longrightarrow>
      fst (tss_rotator (x, y, z, w)) =
        (0, - (pi / 2), - atan2 (2 * (x * y - w * z)) (1 - 2 * (x\<^sup>2 + z\<^sup>2)))) \<and>
   (tss_isStreaming a \<and> tss_written inp = Some (x, y, z, w) \<longrightarrow>
      (LastSensorYaw (tss_step inp a), EyePitch (tss_step inp a), EyeRoll (tss_step inp a)) =
        fst (tss_rotator (x, y, z, w)))"
  by (simp add: tss_rotator_cases power2_eq_square tss_step_on PI_F_def)

theorem tss_rotator_angles_witness:
  "fst (tss_rotator (0, 0, 0, 1)) = (atan2 0 1, asin 0, atan2 0 1) \<and>
   fst (tss_rotator (0, 1, 0, 1)) = (0, pi / 2, atan2 0 1) \<and>
   fst (tss_rotator (0, 1, 0, - 1)) = (0, - (pi / 2), - atan2 0 1) \<and>
   (LastSensorYaw
      (tss_step \<lparr>curtime = 1, hmd_euler = (0, 0, 0), tss_error = 0, tss_written = Some (0, 1, 0, 1)\<rparr>
        (OnStartup False True 0
          (OculusRoomTinyApp Stereo_LeftRight_Multipass 0.064 PostProcessShader_Distortion))),
    EyePitch
      (tss_step \<lparr>curtime = 1, hmd_euler = (0, 0, 0), tss_error = 0, tss_written = Some (0, 1, 0, 1)\<rparr>
        (OnStartup False True 0
          (OculusRoomTinyApp Stereo_LeftRight_Multipass 0.064 PostProcessShader_Distortion))),
    EyeRoll
      (tss_step \<lparr>curtime = 1, hmd_euler = (0, 0, 0), tss_error = 0, tss_written = Some (0, 1, 0, 1)\<rparr>
        (OnStartup False True 0
          (OculusRoomTinyApp Stereo_LeftRight_Multipass 0.064 PostProcessShader_Distortion))))
   = (0, pi / 2, atan2 0 1)"
proof -
  let ?a = "OnStartup False True 0
          (OculusRoomTinyApp Stereo_LeftRight_Multipass 0.064 PostProcessShader_Distortion)"
  let ?i = "\<lparr>curtime = 1, hmd_euler = (0, 0, 0), tss_error = 0, tss_written = Some (0, 1, 0, 1)\<rparr>"
  have t: "tss_isStreaming ?a" by (simp add: OnStartup_def OculusRoomTinyApp_def)
  from tss_rotator_angles [of 1 0 0 0] tss_rotator_angles [of 1 1 0 0 ?a ?i]
    tss_rotator_angles [of "- 1" 1 0 0] t
  show ?thesis by simp
qed

text \<open>
  C2. For every quaternion, unit or not, every argument passed to \<open>asin\<close> lies strictly
  between -1 and 1: \<open>asin\<close> is called once, with \<open>s\<close>, when \<open>-1 < s < 1\<close>, and not at all
  otherwise. In both pole branches (\<open>s \<ge> 1\<close>, \<open>s \<le> -1\<close>) the yaw returned is 0.
\<close>

theorem asin_argument_in_open_interval:
  "(\<forall>t \<in> set (snd (tss_rotator (x, y, z, w))). - 1 < t \<and> t < 1) \<and>
   snd (tss_rotator (x, y, z, w)) =
     (if - 1 < 2 * (w * y - x * z) \<and> 2 * (w * y - x * z) < 1 then [2 * (w * y - x * z)] else []) \<and>
   (1 \<le> 2 * (w * y - x * z) \<or> 2 * (w * y - x * z) \<le> - 1 \<longrightarrow>
      fst (fst (tss_rotator (x, y, z, w))) = 0)"
  by (auto simp add: tss_rotator_cases)

theorem asin_argument_in_open_interval_witness:
  "snd (tss_rotator (0, 0, 0, 1)) = [0] \<and> snd (tss_rotator (0, 1, 0, 1)) = [] \<and>
   fst (fst (tss_rotator (0, 1, 0, 1))) = 0 \<and> fst (fst (tss_rotator (0, 1, 0, - 1))) = 0"
  using asin_argument_in_open_interval [of 0 0 0 1] asin_argument_in_open_interval [of 0 1 0 1]
    asin_argument_in_open_interval [of 0 1 0 "- 1"]
  by simp

section \<open>Yaw integration\<close>

text \<open>
  C3. Start with the last tracked yaw equal to \<open>y0\<close> and no gamepad yaw input, and run
  three frames whose tracked yaw readings are \<open>y0\<close>, \<open>y1\<close>, \<open>y2\<close> (read from the sensor
  fusion alone, or decomposed from three streamed packets). The yaw afterwards is the
  initial yaw plus \<open>y2 - y0\<close>, whatever \<open>y1\<close> was.
\<close>

theorem yaw_integrator_deltas_only:
  assumes g: "vec_x (GamepadRotate a) = 0"
    and l: "LastSensorYaw a = y0"
    and src: "(pSensor a \<and> \<not> tss_isStreaming a \<and>
               fst (hmd_euler i0) = y0 \<and> fst (hmd_euler i1) = y1 \<and> fst (hmd_euler i2) = y2) \<or>
              (tss_isStreaming a \<and>
               tss_written i0 = Some p0 \<and> tss_written i1 = Some p1 \<and> tss_written i2 = Some p2 \<and>
               fst (fst (tss_rotator p0)) = y0 \<and> fst (fst (tss_rotator p1)) = y1 \<and>
               fst (fst (tss_rotator p2)) = y2)"
  shows "EyeYaw (OnIdle i2 (OnIdle i1 (OnIdle i0 a))) = EyeYaw a + (y2 - y0)"
proof -
  let ?a1 = "OnIdle i0 a"
  let ?a2 = "OnIdle i1 ?a1"
  let ?a3 = "OnIdle i2 ?a2"
  have d1: "EyeYaw ?a1 - EyeYaw a = LastSensorYaw ?a1 - LastSensorYaw a"
    using OnIdle_yaw_delta [of i0 a] g by simp
  have d2: "EyeYaw ?a2 - EyeYaw ?a1 = LastSensorYaw ?a2 - LastSensorYaw ?a1"
    using OnIdle_yaw_delta [of i1 ?a1] g by (simp add: OnIdle_keeps)
  have d3: "EyeYaw ?a3 - EyeYaw ?a2 = LastSensorYaw ?a3 - LastSensorYaw ?a2"
    using OnIdle_yaw_delta [of i2 ?a2] g by (simp add: OnIdle_keeps)
  have "LastSensorYaw ?a3 = y2"
    using src by (auto simp add: OnIdle_LastSensorYaw OnIdle_keeps)
  with d1 d2 d3 l show ?thesis by simp
qed

theorem yaw_integrator_deltas_only_witness:
  "EyeYaw (OnIdle \<lparr>curtime = 3, hmd_euler = (2, 0, 0), tss_error = 0, tss_written = None\<rparr>
          (OnIdle \<lparr>curtime = 2, hmd_euler = (0, 0, 0), tss_error = 0, tss_written = None\<rparr>
          (OnIdle \<lparr>curtime = 1, hmd_euler = (1, 0, 0), tss_error = 0, tss_written = None\<rparr>
            (OnStartup True False 0
              (OculusRoomTinyApp Stereo_LeftRight_Multipass 0.064 PostProcessShader_Distortion)
             \<lparr>LastSensorYaw := 1\<rparr>))))
   = YawInitial + (2 - 1) \<and>
   EyeYaw (OnIdle \<lparr>curtime = 3, hmd_euler = (0, 0, 0), tss_error = 0, tss_written = Some (0, 0, 1, 0)\<rparr>
          (OnIdle \<lparr>curtime = 2, hmd_euler = (0, 0, 0), tss_error = 0, tss_written = Some (0, 1, 0, 1)\<rparr>
          (OnIdle \<lparr>curtime = 1, hmd_euler = (0, 0, 0), tss_error = 0, tss_written = Some (0, 0, 0, 1)\<rparr>
            (OnStartup False True 0
              (OculusRoomTinyApp Stereo_LeftRight_Multipass 0.064 PostProcessShader_Distortion)))))
   = YawInitial + (pi - 0)"
proof -
  let ?a = "OnStartup True False 0
              (OculusRoomTinyApp Stereo_LeftRight_Multipass 0.064 PostProcessShader_Distortion)
             \<lparr>LastSensorYaw := 1\<rparr>"
  let ?b = "OnStartup False True 0
              (OculusRoomTinyApp Stereo_LeftRight_Multipass 0.064 PostProcessShader_Distortion)"
  have 1: "EyeYaw (OnIdle \<lparr>curtime = 3, hmd_euler = (2, 0, 0), tss_error = 0, tss_written = None\<rparr>
          (OnIdle \<lparr>curtime = 2, hmd_euler = (0, 0, 0), tss_error = 0, tss_written = None\<rparr>
          (OnIdle \<lparr>curtime = 1, hmd_euler = (1, 0, 0), tss_error = 0, tss_written = None\<rparr> ?a)))
        = EyeYaw ?a + (2 - 1)"
    by (rule yaw_integrator_deltas_only [where ?y1.0 = 0 and ?p0.0 = "(0, 0, 0, 0)"
          and ?p1.0 = "(0, 0, 0, 0)" and ?p2.0 = "(0, 0, 0, 0)"])
      (simp_all add: OnStartup_def OculusRoomTinyApp_def)
  have 2: "EyeYaw (OnIdle \<lparr>curtime = 3, hmd_euler = (0, 0, 0), tss_error = 0, tss_written = Some (0, 0, 1, 0)\<rparr>
          (OnIdle \<lparr>curtime = 2, hmd_euler = (0, 0, 0), tss_error = 0, tss_written = Some (0, 1, 0, 1)\<rparr>
          (OnIdle \<lparr>curtime = 1, hmd_euler = (0, 0, 0), tss_error = 0, tss_written = Some (0, 0, 0, 1)\<rparr> ?b)))
        = EyeYaw ?b + (pi - 0)"
    by (rule yaw_integrator_deltas_only [where ?y1.0 = 0 and ?p0.0 = "(0, 0, 0, 1)"
          and ?p1.0 = "(0, 1, 0, 1)" and ?p2.0 = "(0, 0, 1, 0)"])
      (simp_all add: OnStartup_def OculusRoomTinyApp_def tss_rotator_cases atan2_def)
  from 1 2 show ?thesis by (simp add: OnStartup_def OculusRoomTinyApp_def)
qed

section \<open>Two trackers at once\<close>

lemma sensor_tss_both:
  assumes "pSensor a" and "tss_isStreaming a"
  shows "tss_step inp (sensor_step inp a) = (tss_step inp (a\<lparr>pSensor := False\<rparr>))\<lparr>pSensor := True\<rparr>"
  using assms
  by (simp add: tss_step_def sensor_step_def Let_def split: prod.splits option.splits)

lemma gamepad_step_pSensor:
  "tss_isStreaming a \<Longrightarrow> gamepad_step dt (a\<lparr>pSensor := v\<rparr>) = (gamepad_step dt a)\<lparr>pSensor := v\<rparr>"
  by (simp add: gamepad_step_def Let_def)

lemma move_step_pSensor: "move_step dt (a\<lparr>pSensor := v\<rparr>) = (move_step dt a)\<lparr>pSensor := v\<rparr>"
  by (simp add: move_step_def Let_def localMoveVector_def)

lemma view_step_pSensor: "view_step (a\<lparr>pSensor := v\<rparr>) = (view_step a)\<lparr>pSensor := v\<rparr>"
  by (simp add: view_step_def Let_def shiftedEyePos_def rollPitchYaw_def)

lemma render_step_pSensor: "render_step (a\<lparr>pSensor := v\<rparr>) = (render_step a)\<lparr>pSensor := v\<rparr>"
  by (simp add: render_step_def frame_calls_def)

lemma tss_step_hmd_euler: "tss_step (inp\<lparr>hmd_euler := e\<rparr>) a = tss_step inp a"
  by (simp add: tss_step_def)

text \<open>
  C4. In a frame with both the sensor-fusion provider and the external tracker connected,
  both blocks run, the external tracker's last. The pitch and the roll after the frame
  are the ones decomposed from the external tracker's packet; the yaw has moved by the
  packet's yaw minus the last tracked yaw (and by the gamepad term), the sensor-fusion yaw
  cancelling between the two deltas; the last tracked yaw is the packet's. The whole frame
  result is the one the external tracker alone would have produced (only the \<open>pSensor\<close>
  flag itself differs), and it does not depend on the sensor-fusion reading.
\<close>

theorem external_tracker_takes_precedence:
  assumes s: "pSensor a" and t: "tss_isStreaming a"
  shows "EyePitch (OnIdle inp a) =
           fst (snd (fst (tss_rotator
             (case tss_written inp of None \<Rightarrow> tss_packet a | Some p \<Rightarrow> p)))) \<and>
         EyeRoll (OnIdle inp a) =
           snd (snd (fst (tss_rotator
             (case tss_written inp of None \<Rightarrow> tss_packet a | Some p \<Rightarrow> p)))) \<and>
         EyeYaw (OnIdle inp a) =
           EyeYaw a
             + (fst (fst (tss_rotator
                  (case tss_written inp of None \<Rightarrow> tss_packet a | Some p \<Rightarrow> p)))
                - LastSensorYaw a)
             - vec_x (GamepadRotate a) * (curtime inp - LastUpdate a) \<and>
         LastSensorYaw (OnIdle inp a) =
           fst (fst (tss_rotator
             (case tss_written inp of None \<Rightarrow> tss_packet a | Some p \<Rightarrow> p))) \<and>
         OnIdle inp a = (OnIdle inp (a\<lparr>pSensor := False\<rparr>))\<lparr>pSensor := True\<rparr> \<and>
         OnIdle (inp\<lparr>hmd_euler := e\<rparr>) a = OnIdle inp a"
proof -
  have both: "\<And>i. OnIdle i a = (OnIdle i (a\<lparr>pSensor := False\<rparr>))\<lparr>pSensor := True\<rparr>"
  proof -
    fix i :: frame_input
    let ?a0 = "a\<lparr>LastUpdate := curtime i\<rparr>"
    let ?dt = "curtime i - LastUpdate a"
    have p: "pSensor ?a0" "tss_isStreaming ?a0" using s t by simp_all
    have st: "tss_isStreaming (tss_step i (?a0\<lparr>pSensor := False\<rparr>))"
      using t by (simp add: tss_step_fields)
    have "OnIdle i a =
        render_step (view_step (move_step ?dt (gamepad_step ?dt (tss_step i (sensor_step i ?a0)))))"
      by (simp add: OnIdle_def Let_def)
    also have "\<dots> = (render_step (view_step (move_step ?dt (gamepad_step ?dt
                        (tss_step i (?a0\<lparr>pSensor := False\<rparr>))))))\<lparr>pSensor := True\<rparr>"
      by (simp only: sensor_tss_both [OF p] gamepad_step_pSensor [OF st] move_step_pSensor
            view_step_pSensor render_step_pSensor)
    also have "\<dots> = (OnIdle i (a\<lparr>pSensor := False\<rparr>))\<lparr>pSensor := True\<rparr>"
    proof -
      have sw: "a\<lparr>pSensor := False, LastUpdate := curtime i\<rparr> = ?a0\<lparr>pSensor := False\<rparr>"
        by (cases a) simp
      show ?thesis by (simp add: OnIdle_def Let_def sensor_step_off sw)
    qed
    finally show "OnIdle i a = (OnIdle i (a\<lparr>pSensor := False\<rparr>))\<lparr>pSensor := True\<rparr>" .
  qed
  have indep: "OnIdle (inp\<lparr>hmd_euler := e\<rparr>) (a\<lparr>pSensor := False\<rparr>) =
               OnIdle inp (a\<lparr>pSensor := False\<rparr>)"
    by (simp add: OnIdle_def Let_def sensor_step_off tss_step_hmd_euler)
  have rel: "OnIdle inp a = (OnIdle inp (a\<lparr>pSensor := False\<rparr>))\<lparr>pSensor := True\<rparr> \<and>
             OnIdle (inp\<lparr>hmd_euler := e\<rparr>) a = OnIdle inp a"
    using both [of inp] both [of "inp\<lparr>hmd_euler := e\<rparr>"] indep by simp
  have l: "LastSensorYaw (OnIdle inp a) =
           fst (fst (tss_rotator
             (case tss_written inp of None \<Rightarrow> tss_packet a | Some p \<Rightarrow> p)))"
    using t by (simp add: OnIdle_LastSensorYaw)
  have y: "EyeYaw (OnIdle inp a) =
           EyeYaw a
             + (fst (fst (tss_rotator
                  (case tss_written inp of None \<Rightarrow> tss_packet a | Some p \<Rightarrow> p)))
                - LastSensorYaw a)
             - vec_x (GamepadRotate a) * (curtime inp - LastUpdate a)"
    using OnIdle_yaw_delta [of inp a] l by simp
  show ?thesis
    using rel l y OnIdle_pitch_roll_streaming [OF t, of inp] by simp
qed

theorem external_tracker_takes_precedence_witness:
  "EyePitch (OnIdle \<lparr>curtime = 1, hmd_euler = (1, 1, 1), tss_error = 0, tss_written = Some (0, 1, 0, 1)\<rparr>
     (OnStartup True True 0
       (OculusRoomTinyApp Stereo_LeftRight_Multipass 0.064 PostProcessShader_Distortion))) = pi / 2 \<and>
   EyeRoll (OnIdle \<lparr>curtime = 1, hmd_euler = (1, 1, 1), tss_error = 0, tss_written = Some (0, 1, 0, 1)\<rparr>
     (OnStartup True True 0
       (OculusRoomTinyApp Stereo_LeftRight_Multipass 0.064 PostProcessShader_Distortion))) = 0 \<and>
   EyeYaw (OnIdle \<lparr>curtime = 1, hmd_euler = (1, 1, 1), tss_error = 0, tss_written = Some (0, 0, 1, 0)\<rparr>
     (OnStartup True True 0
       (OculusRoomTinyApp Stereo_LeftRight_Multipass 0.064 PostProcessShader_Distortion))) =
     YawInitial + pi \<and>
   EyePitch (OnIdle \<lparr>curtime = 1, hmd_euler = (1, 1, 1), tss_error = 0, tss_written = Some (0, 0, 1, 0)\<rparr>
     (OnStartup True True 0
       (OculusRoomTinyApp Stereo_LeftRight_Multipass 0.064 PostProcessShader_Distortion))) = 0 \<and>
   OnIdle \<lparr>curtime = 1, hmd_euler = (0, 0, 0), tss_error = 0, tss_written = Some (0, 1, 0, 1)\<rparr>
     (OnStartup True True 0
       (OculusRoomTinyApp Stereo_LeftRight_Multipass 0.064 PostProcessShader_Distortion)) =
   OnIdle \<lparr>curtime = 1, hmd_euler = (1, 1, 1), tss_error = 0, tss_written = Some (0, 1, 0, 1)\<rparr>
     (OnStartup True True 0
       (OculusRoomTinyApp Stereo_LeftRight_Multipass 0.064 PostProcessShader_Distortion))"
proof -
  let ?a = "OnStartup True True 0
      (OculusRoomTinyApp Stereo_LeftRight_Multipass 0.064 PostProcessShader_Distortion)"
  let ?i = "\<lparr>curtime = 1, hmd_euler = (1, 1, 1), tss_error = 0, tss_written = Some (0, 1, 0, 1)\<rparr>"
  let ?j = "\<lparr>curtime = 1, hmd_euler = (1, 1, 1), tss_error = 0, tss_written = Some (0, 0, 1, 0)\<rparr>"
  have h: "pSensor ?a" "tss_isStreaming ?a"
    by (simp_all add: OnStartup_def OculusRoomTinyApp_def)
  have f: "EyeYaw ?a = YawInitial" "LastSensorYaw ?a = 0" "vec_x (GamepadRotate ?a) = 0"
    by (simp_all add: OnStartup_def OculusRoomTinyApp_def)
  note A = external_tracker_takes_precedence [OF h, of ?i "(0, 0, 0)"]
  note B = external_tracker_takes_precedence [OF h, of ?j]
  have a1: "EyePitch (OnIdle ?i ?a) = pi / 2"
    using A [THEN conjunct1] by (simp add: tss_rotator_cases PI_F_def)
  have a2: "EyeRoll (OnIdle ?i ?a) = 0"
    using A [THEN conjunct2, THEN conjunct1] by (simp add: tss_rotator_cases atan2_def)
  have a3: "EyeYaw (OnIdle ?j ?a) = YawInitial + pi"
    using B [THEN conjunct2, THEN conjunct2, THEN conjunct1] f
    by (simp add: tss_rotator_cases atan2_def)
  have a4: "EyePitch (OnIdle ?j ?a) = 0"
    using B [THEN conjunct1] by (simp add: tss_rotator_cases asin_def)
  have a5: "OnIdle \<lparr>curtime = 1, hmd_euler = (0, 0, 0), tss_error = 0,
                    tss_written = Some (0, 1, 0, 1)\<rparr> ?a = OnIdle ?i ?a"
    using A [THEN conjunct2, THEN conjunct2, THEN conjunct2, THEN conjunct2, THEN conjunct2]
    by simp
  from a1 a2 a3 a4 a5 show ?thesis by (intro conjI)
qed

section \<open>Head model\<close>

lemma rollPitchYaw_y:
  "vec_y (Transform (rollPitchYaw a) v) =
     cos (EyePitch a) * sin (EyeRoll a) * vec_x v
       + cos (EyePitch a) * cos (EyeRoll a) * vec_y v
       - sin (EyePitch a) * vec_z v"
  by (simp add: rollPitchYaw_def RotationX_def RotationY_def RotationZ_def)

text \<open>
  C5, as it holds of the code. The head model adds the eye offset rotated by yaw, pitch and
  roll to the eye position and then subtracts the constant eye height 0.15 from the
  vertical component, not the rotated offset's vertical component. So the shifted eye
  position's height is the pivot's height plus \<open>0.15 (cos pitch cos roll - 1) + 0.09 sin pitch\<close>:
  it equals the pivot's height when pitch and roll are both 0, for every yaw, and the
  view matrix is built from this position.
\<close>

theorem shiftedEyePos_height:
  "vec_y (shiftedEyePos a) =
     vec_y (EyePos a)
       + headBaseToEyeHeight * (cos (EyePitch a) * cos (EyeRoll a) - 1)
       + headBaseToEyeProtrusion * sin (EyePitch a) \<and>
   (EyePitch a = 0 \<and> EyeRoll a = 0 \<longrightarrow> vec_y (shiftedEyePos a) = vec_y (EyePos a)) \<and>
   View (view_step a) =
     LookAtRH (shiftedEyePos a)
       (vadd (shiftedEyePos a) (Transform (rollPitchYaw a) ForwardVector))
       (Transform (rollPitchYaw a) UpVector)"
  by (simp add: shiftedEyePos_def Let_def rollPitchYaw_y vadd_def eyeCenterInHeadFrame_def
      view_step_def algebra_simps)

theorem shiftedEyePos_height_witness:
  "vec_y (shiftedEyePos
      (OculusRoomTinyApp Stereo_LeftRight_Multipass 0.064 PostProcessShader_Distortion)) = 1.6"
  using shiftedEyePos_height
    [of "OculusRoomTinyApp Stereo_LeftRight_Multipass 0.064 PostProcessShader_Distortion"]
  by (simp add: OculusRoomTinyApp_def)

text \<open>
  C5 as stated fails: at the initial position with pitch 0 and roll 1 (radian) the shifted
  eye position lies below the pivot, by \<open>0.15 (1 - cos 1)\<close>.
\<close>

theorem shiftedEyePos_lowered_by_roll:
  "vec_y (shiftedEyePos
      (OculusRoomTinyApp Stereo_LeftRight_Multipass 0.064 PostProcessShader_Distortion
         \<lparr>EyeRoll := 1\<rparr>))
   < vec_y (EyePos
      (OculusRoomTinyApp Stereo_LeftRight_Multipass 0.064 PostProcessShader_Distortion
         \<lparr>EyeRoll := 1\<rparr>)) \<and>
   vec_y (shiftedEyePos
      (OculusRoomTinyApp Stereo_LeftRight_Multipass 0.064 PostProcessShader_Distortion
         \<lparr>EyeRoll := 1\<rparr>))
   \<noteq> vec_y (EyePos
      (OculusRoomTinyApp Stereo_LeftRight_Multipass 0.064 PostProcessShader_Distortion
         \<lparr>EyeRoll := 1\<rparr>))"
proof -
  have "cos (1::real) < cos 0"
    using pi_ge_two by (intro cos_monotone_0_pi) simp_all
  then have c: "cos (1::real) < 1" by simp
  show ?thesis
    using c
    by (simp add: shiftedEyePos_def Let_def rollPitchYaw_y vadd_def eyeCenterInHeadFrame_def
        OculusRoomTinyApp_def headBaseToEyeHeight_def headBaseToEyeProtrusion_def)
qed

section \<open>Mouse pitch\<close>

lemma OnMouseMove_pitch_sensor: "pSensor a \<Longrightarrow> EyePitch (OnMouseMove dx dy md a) = EyePitch a"
  by (simp add: OnMouseMove_def Let_def)

text \<open>
  C6 at its failing input. With the external tracker streaming and no sensor-fusion
  sensor, a mouse motion of 180 units upwards moves the pitch from 0 to 1/2: the handler
  tests the sensor pointer only, where the frame function's gamepad pitch tests both
  trackers.
\<close>

theorem mouse_changes_pitch_with_external_tracker:
  "tss_isStreaming (OnStartup False True 0
      (OculusRoomTinyApp Stereo_LeftRight_Multipass 0.064 PostProcessShader_Distortion)) \<and>
   EyePitch (OnStartup False True 0
      (OculusRoomTinyApp Stereo_LeftRight_Multipass 0.064 PostProcessShader_Distortion)) = 0 \<and>
   EyePitch (OnMouseMove 0 (- 180) 0 (OnStartup False True 0
      (OculusRoomTinyApp Stereo_LeftRight_Multipass 0.064 PostProcessShader_Distortion))) = 1 / 2"
  by (simp add: OnMouseMove_def Let_def OnStartup_def OculusRoomTinyApp_def clamp_pitch_def
      maxPitch_def Sensitivity_def)

section \<open>A failed sample\<close>


lemma gamepad_step_Calls:
  "gamepad_step dt (a\<lparr>Calls := l\<rparr>) = (gamepad_step dt a)\<lparr>Calls := l\<rparr>"
  by (simp add: gamepad_step_def Let_def)

lemma move_step_Calls: "move_step dt (a\<lparr>Calls := l\<rparr>) = (move_step dt a)\<lparr>Calls := l\<rparr>"
  by (simp add: move_step_def Let_def localMoveVector_def)

lemma view_step_Calls: "view_step (a\<lparr>Calls := l\<rparr>) = (view_step a)\<lparr>Calls := l\<rparr>"
  by (simp add: view_step_def Let_def shiftedEyePos_def rollPitchYaw_def)

lemma render_step_Calls:
  "render_step (a\<lparr>Calls := l\<rparr>) = (render_step a)\<lparr>Calls := l @ frame_calls a\<rparr>"
  by (simp add: render_step_def frame_calls_def)

lemma tss_step_error_logged:
  assumes "tss_isStreaming a" and "tss_error inp \<noteq> 0"
  shows "tss_step inp a =
         (tss_step (inp\<lparr>tss_error := 0\<rparr>) a)
           \<lparr>Calls := Calls a @ [LogText ''TSS: getLatestStreamData error'']\<rparr>"
  using assms by (simp add: tss_step_def Let_def split: prod.splits option.splits)

lemma sensor_step_tss_error: "sensor_step (inp\<lparr>tss_error := v\<rparr>) a = sensor_step inp a"
  by (simp add: sensor_step_def)

lemma OnIdle_error_only_logged:
  assumes t: "tss_isStreaming a" and e: "tss_error inp \<noteq> 0"
  shows "OnIdle inp a = (OnIdle (inp\<lparr>tss_error := 0\<rparr>) a)\<lparr>Calls := Calls (OnIdle inp a)\<rparr>"
proof -
  let ?b = "sensor_step inp (a\<lparr>LastUpdate := curtime inp\<rparr>)"
  let ?dt = "curtime inp - LastUpdate a"
  let ?c = "view_step (move_step ?dt (gamepad_step ?dt (tss_step (inp\<lparr>tss_error := 0\<rparr>) ?b)))"
  have tb: "tss_isStreaming ?b" using t by (simp add: sensor_step_fields)
  have "OnIdle inp a =
        render_step (view_step (move_step ?dt (gamepad_step ?dt (tss_step inp ?b))))"
    by (simp add: OnIdle_def Let_def)
  also have "\<dots> = (render_step ?c)
       \<lparr>Calls := (Calls ?b @ [LogText ''TSS: getLatestStreamData error'']) @ frame_calls ?c\<rparr>"
    by (simp only: tss_step_error_logged [OF tb e] gamepad_step_Calls move_step_Calls
          view_step_Calls render_step_Calls)
  also have "render_step ?c = OnIdle (inp\<lparr>tss_error := 0\<rparr>) a"
    by (simp add: OnIdle_def Let_def sensor_step_tss_error)
  finally have r: "OnIdle inp a = (OnIdle (inp\<lparr>tss_error := 0\<rparr>) a)
       \<lparr>Calls := (Calls ?b @ [LogText ''TSS: getLatestStreamData error'']) @ frame_calls ?c\<rparr>" .
  have "Calls (OnIdle inp a) =
          (Calls ?b @ [LogText ''TSS: getLatestStreamData error'']) @ frame_calls ?c"
    by (subst r) simp
  with r show ?thesis by simp
qed

lemma tss_step_Calls:
  "Calls (tss_step inp a) =
     Calls a @ (if tss_isStreaming a \<and> tss_error inp \<noteq> 0
                then [LogText ''TSS: getLatestStreamData error''] else [])"
  by (simp add: tss_step_def Let_def split: prod.splits)

lemma OnIdle_Calls:
  "Calls (OnIdle inp a) =
     Calls a @ (if tss_isStreaming a \<and> tss_error inp \<noteq> 0
                then [LogText ''TSS: getLatestStreamData error''] else [])
       @ frame_calls (OnIdle inp a)"
  by (simp add: OnIdle_def Let_def step_fields tss_step_Calls)

text \<open>
  What a frame does when the sample call reports an error: the message is logged and the
  packet buffer is decomposed as in any other frame, so the result differs from that of
  the error-free frame in the call log only, and the frame runs to its end (movement,
  view, one \<^verbatim>\<open>Render\<close> per eye, \<^verbatim>\<open>Present\<close> and \<^verbatim>\<open>ForceFlushGPU\<close>). Pitch and
  roll stay, and yaw changes by the gamepad term only, when the call left the buffer
  untouched and the last tracked yaw, pitch and roll still are the decomposition of the
  buffer.
\<close>

lemma failed_sample_only_logged:
  assumes t: "tss_isStreaming a" and e: "tss_error inp \<noteq> 0"
  shows "OnIdle inp a = (OnIdle (inp\<lparr>tss_error := 0\<rparr>) a)\<lparr>Calls := Calls (OnIdle inp a)\<rparr> \<and>
         Calls (OnIdle inp a) =
           Calls a @ [LogText ''TSS: getLatestStreamData error''] @ frame_calls (OnIdle inp a) \<and>
         (tss_written inp = None \<and>
          (LastSensorYaw a, EyePitch a, EyeRoll a) = fst (tss_rotator (tss_packet a)) \<longrightarrow>
            EyePitch (OnIdle inp a) = EyePitch a \<and>
            EyeRoll (OnIdle inp a) = EyeRoll a \<and>
            EyeYaw (OnIdle inp a) =
              EyeYaw a - vec_x (GamepadRotate a) * (curtime inp - LastUpdate a))"
proof (intro conjI impI)
  show "OnIdle inp a = (OnIdle (inp\<lparr>tss_error := 0\<rparr>) a)\<lparr>Calls := Calls (OnIdle inp a)\<rparr>"
    using OnIdle_error_only_logged [OF t e] .
  show "Calls (OnIdle inp a) =
          Calls a @ [LogText ''TSS: getLatestStreamData error''] @ frame_calls (OnIdle inp a)"
    using t e by (simp add: OnIdle_Calls)
next
  assume h: "tss_written inp = None \<and>
             (LastSensorYaw a, EyePitch a, EyeRoll a) = fst (tss_rotator (tss_packet a))"
  then have r: "fst (tss_rotator (tss_packet a)) = (LastSensorYaw a, EyePitch a, EyeRoll a)"
    by simp
  show "EyePitch (OnIdle inp a) = EyePitch a"
    using h r by (simp add: OnIdle_pitch_roll_streaming(1) [OF t])
  show "EyeRoll (OnIdle inp a) = EyeRoll a"
    using h r by (simp add: OnIdle_pitch_roll_streaming(2) [OF t])
  have "LastSensorYaw (OnIdle inp a) = LastSensorYaw a"
    using h r t by (simp add: OnIdle_LastSensorYaw)
  then show "EyeYaw (OnIdle inp a) =
               EyeYaw a - vec_x (GamepadRotate a) * (curtime inp - LastUpdate a)"
    using OnIdle_yaw_delta [of inp a] by simp
qed

lemma OnIdle_tss_packet:
  assumes t: "tss_isStreaming a"
  shows "tss_packet (OnIdle inp a) =
           (case tss_written inp of None \<Rightarrow> tss_packet a | Some p \<Rightarrow> p)"
proof -
  let ?b = "sensor_step inp (a\<lparr>LastUpdate := curtime inp\<rparr>)"
  have tb: "tss_isStreaming ?b" using t by (simp add: sensor_step_fields)
  have "tss_packet (OnIdle inp a) = tss_packet (tss_step inp ?b)"
    by (simp add: OnIdle_def Let_def step_fields)
  then show ?thesis
    using tss_step_on(1) [OF tb, of inp] by (simp add: sensor_step_fields split: option.splits)
qed

lemma OnMouseMove_tracker_fields:
  "tss_isStreaming (OnMouseMove dx dy md a) = tss_isStreaming a"
  "tss_packet (OnMouseMove dx dy md a) = tss_packet a"
  "LastSensorYaw (OnMouseMove dx dy md a) = LastSensorYaw a"
  "EyeRoll (OnMouseMove dx dy md a) = EyeRoll a"
  by (simp_all add: OnMouseMove_def Let_def)

text \<open>
  After a frame with the external tracker streaming, whatever the mouse does next, a frame
  whose sample call fails and leaves the buffer untouched ends with the pitch, the roll and
  the tracked yaw that the frame before computed.
\<close>

lemma failed_sample_reproduces_last_frame:
  assumes t: "tss_isStreaming a" and n: "tss_written inp2 = None"
  shows "EyePitch (OnIdle inp2 (OnMouseMove dx dy md (OnIdle inp1 a))) = EyePitch (OnIdle inp1 a) \<and>
         EyeRoll (OnIdle inp2 (OnMouseMove dx dy md (OnIdle inp1 a))) = EyeRoll (OnIdle inp1 a) \<and>
         LastSensorYaw (OnIdle inp2 (OnMouseMove dx dy md (OnIdle inp1 a))) =
           LastSensorYaw (OnIdle inp1 a)"
proof -
  let ?b = "OnIdle inp1 a"
  let ?c = "OnMouseMove dx dy md ?b"
  let ?p = "case tss_written inp1 of None \<Rightarrow> tss_packet a | Some p \<Rightarrow> p"
  have tc: "tss_isStreaming ?c" using t by (simp add: OnMouseMove_tracker_fields OnIdle_keeps)
  have pc: "tss_packet ?c = ?p"
    using OnIdle_tss_packet [OF t, of inp1] by (simp add: OnMouseMove_tracker_fields)
  have "EyePitch (OnIdle inp2 ?c) = fst (snd (fst (tss_rotator ?p)))"
    using OnIdle_pitch_roll_streaming(1) [OF tc, of inp2] n pc by simp
  moreover have "EyeRoll (OnIdle inp2 ?c) = snd (snd (fst (tss_rotator ?p)))"
    using OnIdle_pitch_roll_streaming(2) [OF tc, of inp2] n pc by simp
  moreover have "LastSensorYaw (OnIdle inp2 ?c) = fst (fst (tss_rotator ?p))"
    using tc n pc by (simp add: OnIdle_LastSensorYaw)
  moreover have "LastSensorYaw ?b = fst (fst (tss_rotator ?p))"
    using t by (simp add: OnIdle_LastSensorYaw)
  ultimately show ?thesis
    using OnIdle_pitch_roll_streaming [OF t, of inp1] by simp
qed

text \<open>
  C7 at its failing input. The external tracker streams and there is no sensor-fusion
  sensor; a mouse motion brings the pitch to 1/2 (the mouse handler's guard does not test
  the external tracker); the next frame's sample call fails and leaves the still zero
  packet buffer untouched; the frame decomposes the buffer and sets the pitch to 0, where
  the previous value 1/2 should have been retained.
\<close>

theorem sample_error_overwrites_mouse_pitch:
  "tss_isStreaming (OnMouseMove 0 (- 180) 0 (OnStartup False True 0
      (OculusRoomTinyApp Stereo_LeftRight_Multipass 0.064 PostProcessShader_Distortion))) \<and>
   EyePitch (OnMouseMove 0 (- 180) 0 (OnStartup False True 0
      (OculusRoomTinyApp Stereo_LeftRight_Multipass 0.064 PostProcessShader_Distortion))) = 1 / 2 \<and>
   EyePitch (OnIdle \<lparr>curtime = 1, hmd_euler = (0, 0, 0), tss_error = 1, tss_written = None\<rparr>
     (OnMouseMove 0 (- 180) 0 (OnStartup False True 0
      (OculusRoomTinyApp Stereo_LeftRight_Multipass 0.064 PostProcessShader_Distortion)))) = 0"
proof -
  let ?a = "OnMouseMove 0 (- 180) 0 (OnStartup False True 0
      (OculusRoomTinyApp Stereo_LeftRight_Multipass 0.064 PostProcessShader_Distortion))"
  have t: "tss_isStreaming ?a"
    by (simp add: OnMouseMove_def Let_def OnStartup_def OculusRoomTinyApp_def)
  have p: "tss_packet ?a = (0, 0, 0, 0)"
    by (simp add: OnMouseMove_def Let_def OnStartup_def OculusRoomTinyApp_def)
  have m: "EyePitch ?a = 1 / 2"
    by (simp add: OnMouseMove_def Let_def OnStartup_def OculusRoomTinyApp_def clamp_pitch_def
        maxPitch_def Sensitivity_def)
  have "EyePitch (OnIdle \<lparr>curtime = 1, hmd_euler = (0, 0, 0), tss_error = 1, tss_written = None\<rparr> ?a) = 0"
    using OnIdle_pitch_roll_streaming(1) [OF t,
        of "\<lparr>curtime = 1, hmd_euler = (0, 0, 0), tss_error = 1, tss_written = None\<rparr>"] p
    by (simp add: tss_rotator_cases asin_def)
  with t m show ?thesis by simp
qed

section \<open>Manual pitch without a tracker\<close>


lemma maxPitch_le: "maxPitch \<le> (pi / 2) * 0.98"
proof -
  have "3.1415 < pi" using pi_lower by simp
  then show ?thesis by (simp add: maxPitch_def)
qed

lemma clamp_pitch_bound: "\<bar>clamp_pitch p\<bar> \<le> maxPitch"
proof -
  have "0 \<le> maxPitch" by (simp add: maxPitch_def)
  then show ?thesis by (auto simp add: clamp_pitch_def Let_def abs_le_iff)
qed

lemma OnMouseMove_fields:
  "pSensor (OnMouseMove dx dy md a) = pSensor a"
  "tss_isStreaming (OnMouseMove dx dy md a) = tss_isStreaming a"
  "EyeRoll (OnMouseMove dx dy md a) = EyeRoll a"
  "EyePos (OnMouseMove dx dy md a) = EyePos a"
  "GamepadMove (OnMouseMove dx dy md a) = GamepadMove a"
  "EyePitch (OnMouseMove dx dy md a) =
     (if \<not> pSensor a then clamp_pitch (EyePitch a - (Sensitivity * real_of_int dy) / 360)
      else EyePitch a)"
  by (simp_all add: OnMouseMove_def Let_def)

lemma OnGamepad_fields:
  "pSensor (OnGamepad lx ly rx ry a) = pSensor a"
  "tss_isStreaming (OnGamepad lx ly rx ry a) = tss_isStreaming a"
  "EyePitch (OnGamepad lx ly rx ry a) = EyePitch a"
  "EyeRoll (OnGamepad lx ly rx ry a) = EyeRoll a"
  "EyePos (OnGamepad lx ly rx ry a) = EyePos a"
  "vec_y (GamepadMove (OnGamepad lx ly rx ry a)) = 0"
  by (simp_all add: OnGamepad_def)

lemma OnKey_pSensor: "pSensor (OnKey vk down a) = pSensor a"
  by (simp add: OnKey_def if_distrib [where f = pSensor]
      PostProcessShader.case_distrib [where h = pSensor]
      split del: if_split cong: if_cong split: PostProcessShader.split)

lemma OnKey_tss_isStreaming: "tss_isStreaming (OnKey vk down a) = tss_isStreaming a"
  by (simp add: OnKey_def if_distrib [where f = tss_isStreaming]
      PostProcessShader.case_distrib [where h = tss_isStreaming]
      split del: if_split cong: if_cong split: PostProcessShader.split)

lemma OnKey_EyePitch: "EyePitch (OnKey vk down a) = EyePitch a"
  by (simp add: OnKey_def if_distrib [where f = EyePitch]
      PostProcessShader.case_distrib [where h = EyePitch]
      split del: if_split cong: if_cong split: PostProcessShader.split)

lemma OnKey_EyeRoll: "EyeRoll (OnKey vk down a) = EyeRoll a"
  by (simp add: OnKey_def if_distrib [where f = EyeRoll]
      PostProcessShader.case_distrib [where h = EyeRoll]
      split del: if_split cong: if_cong split: PostProcessShader.split)

lemma OnKey_EyePos: "EyePos (OnKey vk down a) = EyePos a"
  by (simp add: OnKey_def if_distrib [where f = EyePos]
      PostProcessShader.case_distrib [where h = EyePos]
      split del: if_split cong: if_cong split: PostProcessShader.split)

lemma OnKey_GamepadMove: "GamepadMove (OnKey vk down a) = GamepadMove a"
  by (simp add: OnKey_def if_distrib [where f = GamepadMove]
      PostProcessShader.case_distrib [where h = GamepadMove]
      split del: if_split cong: if_cong split: PostProcessShader.split)

lemmas OnKey_fields = OnKey_pSensor OnKey_tss_isStreaming OnKey_EyePitch OnKey_EyeRoll
  OnKey_EyePos OnKey_GamepadMove

lemma OnIdle_no_tracker:
  assumes "\<not> pSensor a" and "\<not> tss_isStreaming a"
  shows "EyePitch (OnIdle inp a) =
           clamp_pitch (EyePitch a - vec_y (GamepadRotate a) * (curtime inp - LastUpdate a))"
    and "EyeRoll (OnIdle inp a) = EyeRoll a"
  using assms by (simp_all add: OnIdle_def Let_def step_fields sensor_step_off tss_step_off)

lemma Run_no_tracker:
  assumes "\<not> pSensor a" and "\<not> tss_isStreaming a" and "\<bar>EyePitch a\<bar> \<le> maxPitch"
    and "EyeRoll a = 0"
  shows "\<bar>EyePitch (Run es a)\<bar> \<le> maxPitch \<and> EyeRoll (Run es a) = 0"
  using assms
proof (induction es arbitrary: a)
  case Nil
  then show ?case by simp
next
  case (Cons e es)
  have "\<not> pSensor (dispatch e a) \<and> \<not> tss_isStreaming (dispatch e a) \<and>
        \<bar>EyePitch (dispatch e a)\<bar> \<le> maxPitch \<and> EyeRoll (dispatch e a) = 0"
    using Cons.prems
    by (cases e)
      (simp_all add: OnMouseMove_fields OnGamepad_fields OnKey_fields OnIdle_keeps
        OnIdle_no_tracker clamp_pitch_bound)
  then show ?case using Cons by simp
qed

text \<open>
  C8. With no tracker connected, after any sequence of gamepad, mouse, key and frame events
  from the started application the pitch is within \<open>(pi / 2) 0.98\<close> in absolute value and
  the roll is 0. Each of the two operations that modify the pitch clamps it to this bound
  from any state: the mouse handler, and the frame's gamepad pitch integration. (The
  program clamps to \<open>(3.1415 / 2) 0.98\<close>, which is below \<open>(pi / 2) 0.98\<close>.)
\<close>

theorem no_tracker_pitch_clamped:
  "\<bar>EyePitch (Run es (OnStartup False False t0 (OculusRoomTinyApp m i sh)))\<bar> \<le> (pi / 2) * 0.98 \<and>
   EyeRoll (Run es (OnStartup False False t0 (OculusRoomTinyApp m i sh))) = 0 \<and>
   (\<not> pSensor a \<longrightarrow> \<bar>EyePitch (OnMouseMove dx dy md a)\<bar> \<le> (pi / 2) * 0.98) \<and>
   (\<not> pSensor a \<and> \<not> tss_isStreaming a \<longrightarrow> \<bar>EyePitch (OnIdle inp a)\<bar> \<le> (pi / 2) * 0.98)"
proof -
  let ?a0 = "OnStartup False False t0 (OculusRoomTinyApp m i sh)"
  have "\<bar>EyePitch (Run es ?a0)\<bar> \<le> maxPitch \<and> EyeRoll (Run es ?a0) = 0"
    by (rule Run_no_tracker) (simp_all add: OnStartup_def OculusRoomTinyApp_def maxPitch_def)
  moreover have "\<not> pSensor a \<longrightarrow> \<bar>EyePitch (OnMouseMove dx dy md a)\<bar> \<le> maxPitch"
    by (simp add: OnMouseMove_fields clamp_pitch_bound)
  moreover have "\<not> pSensor a \<and> \<not> tss_isStreaming a \<longrightarrow> \<bar>EyePitch (OnIdle inp a)\<bar> \<le> maxPitch"
    by (simp add: OnIdle_no_tracker clamp_pitch_bound)
  ultimately show ?thesis using maxPitch_le by auto
qed

theorem no_tracker_pitch_clamped_witness:
  "\<bar>EyePitch (Run [MouseMove 0 (- 1000),
                    Idle \<lparr>curtime = 1, hmd_euler = (0, 0, 0), tss_error = 0, tss_written = None\<rparr>]
       (OnStartup False False 0
         (OculusRoomTinyApp Stereo_LeftRight_Multipass 0.064 PostProcessShader_Distortion)))\<bar>
     \<le> (pi / 2) * 0.98 \<and>
   \<bar>EyePitch (OnMouseMove 0 (- 1000) 0
       (OnStartup False False 0
         (OculusRoomTinyApp Stereo_LeftRight_Multipass 0.064 PostProcessShader_Distortion)))\<bar>
     \<le> (pi / 2) * 0.98 \<and>
   \<bar>EyePitch (OnIdle \<lparr>curtime = 1, hmd_euler = (0, 0, 0), tss_error = 0, tss_written = None\<rparr>
       (OnStartup False False 0
         (OculusRoomTinyApp Stereo_LeftRight_Multipass 0.064 PostProcessShader_Distortion)))\<bar>
     \<le> (pi / 2) * 0.98"
  using no_tracker_pitch_clamped
    [of "[MouseMove 0 (- 1000),
          Idle \<lparr>curtime = 1, hmd_euler = (0, 0, 0), tss_error = 0, tss_written = None\<rparr>]"
        0 Stereo_LeftRight_Multipass "0.064" PostProcessShader_Distortion
        "OnStartup False False 0
         (OculusRoomTinyApp Stereo_LeftRight_Multipass 0.064 PostProcessShader_Distortion)"
        0 "- 1000" 0
        "\<lparr>curtime = 1, hmd_euler = (0, 0, 0), tss_error = 0, tss_written = None\<rparr>"]
  by (simp add: OnStartup_def OculusRoomTinyApp_def)

section \<open>Keyboard movement\<close>


lemma Transform_RotationY:
  "Transform (RotationY t) v =
     Vector3f (cos t * vec_x v + sin t * vec_z v) (vec_y v) (cos t * vec_z v - sin t * vec_x v)"
  by (simp add: RotationY_def)

lemma rotate_plane_norm:
  fixes c s x z :: real
  shows "(c * x + s * z) * (c * x + s * z) + (c * z - s * x) * (c * z - s * x) =
         (s\<^sup>2 + c\<^sup>2) * (x * x + z * z)"
  by (simp add: power2_eq_square algebra_simps)

lemma LengthSq_RotationY: "LengthSq (Transform (RotationY t) v) = LengthSq v"
proof -
  have "LengthSq (Transform (RotationY t) v) =
          ((cos t * vec_x v + sin t * vec_z v) * (cos t * vec_x v + sin t * vec_z v)
            + (cos t * vec_z v - sin t * vec_x v) * (cos t * vec_z v - sin t * vec_x v))
          + vec_y v * vec_y v"
    by (simp add: Transform_RotationY LengthSq_def)
  also have "\<dots> = (vec_x v * vec_x v + vec_z v * vec_z v) + vec_y v * vec_y v"
    by (simp only: rotate_plane_norm sin_cos_squared_add mult_1)
  finally show ?thesis by (simp add: LengthSq_def)
qed

lemma Length_RotationY: "Length (Transform (RotationY t) v) = Length v"
  by (simp add: Length_def LengthSq_RotationY)

lemma Length_vscale: "Length (vscale v k) = \<bar>k\<bar> * Length v"
proof -
  have "LengthSq (vscale v k) = k\<^sup>2 * LengthSq v"
    by (simp add: LengthSq_def vscale_def power2_eq_square algebra_simps)
  then show ?thesis by (simp add: Length_def real_sqrt_mult)
qed

lemma Length_Normalize:
  assumes "0 < LengthSq v"
  shows "Length (Normalize v) = 1"
proof -
  let ?L = "Length v"
  have L: "?L * ?L = LengthSq v" using assms by (simp add: Length_def)
  have "LengthSq (Normalize v) = LengthSq v / (?L * ?L)"
    by (simp add: Normalize_def LengthSq_def add_divide_distrib)
  also have "\<dots> = 1" using assms L by simp
  finally show ?thesis by (simp add: Length_def)
qed

lemma vsub_vadd: "vsub (vadd p d) p = d"
  by (cases d) (simp add: vsub_def vadd_def)

lemma Length_localMoveVector:
  assumes "MoveForward a \<noteq> 0 \<or> MoveBack a \<noteq> 0 \<or> MoveLeft a \<noteq> 0 \<or> MoveRight a \<noteq> 0"
  shows "Length (localMoveVector a) = 1"
  unfolding localMoveVector_def Let_def
  using assms
  by (intro Length_Normalize)
    (auto simp add: LengthSq_def vadd_def vsub_def vneg_def ForwardVector_def RightVector_def)

lemma move_step_keyboard:
  assumes "MoveForward a \<noteq> 0 \<or> MoveBack a \<noteq> 0 \<or> MoveLeft a \<noteq> 0 \<or> MoveRight a \<noteq> 0"
  shows "EyePos (move_step dt a) =
           vadd (EyePos a)
             (vscale (Transform (RotationY (EyeYaw a)) (localMoveVector a))
                (MoveSpeed * dt * (if ShiftDown a then 3 else 1)))"
  using assms by (simp add: move_step_def Let_def)

lemma OnIdle_EyePos:
  "EyePos (OnIdle inp a) =
     EyePos (move_step (curtime inp - LastUpdate a)
       (gamepad_step (curtime inp - LastUpdate a)
         (tss_step inp (sensor_step inp (a\<lparr>LastUpdate := curtime inp\<rparr>)))))"
  by (simp add: OnIdle_def Let_def step_fields)

lemma keyboard_displacement_length:
  assumes k: "MoveForward a \<noteq> 0 \<or> MoveBack a \<noteq> 0 \<or> MoveLeft a \<noteq> 0 \<or> MoveRight a \<noteq> 0"
  shows "Length (vsub (EyePos (OnIdle inp a)) (EyePos a)) =
           \<bar>MoveSpeed * (curtime inp - LastUpdate a) * (if ShiftDown a then 3 else 1)\<bar>"
proof -
  let ?dt = "curtime inp - LastUpdate a"
  let ?b = "gamepad_step ?dt (tss_step inp (sensor_step inp (a\<lparr>LastUpdate := curtime inp\<rparr>)))"
  have kb: "MoveForward ?b \<noteq> 0 \<or> MoveBack ?b \<noteq> 0 \<or> MoveLeft ?b \<noteq> 0 \<or> MoveRight ?b \<noteq> 0"
    using k by (simp add: step_fields)
  have pb: "EyePos ?b = EyePos a" and sb: "ShiftDown ?b = ShiftDown a"
    by (simp_all add: step_fields)
  have "vsub (EyePos (OnIdle inp a)) (EyePos a) =
          vscale (Transform (RotationY (EyeYaw ?b)) (localMoveVector ?b))
            (MoveSpeed * ?dt * (if ShiftDown a then 3 else 1))"
    by (simp only: OnIdle_EyePos move_step_keyboard [OF kb] pb sb vsub_vadd)
  then have "Length (vsub (EyePos (OnIdle inp a)) (EyePos a)) =
          \<bar>MoveSpeed * ?dt * (if ShiftDown a then 3 else 1)\<bar> * Length (localMoveVector ?b)"
    by (simp only: Length_vscale Length_RotationY)
  then show ?thesis using Length_localMoveVector [OF kb] by simp
qed

lemma sensor_step_MoveBack:
  "sensor_step inp (a\<lparr>MoveBack := v\<rparr>) = (sensor_step inp a)\<lparr>MoveBack := v\<rparr>"
  by (simp add: sensor_step_def split: prod.splits)

lemma tss_step_MoveBack: "tss_step inp (a\<lparr>MoveBack := v\<rparr>) = (tss_step inp a)\<lparr>MoveBack := v\<rparr>"
  by (simp add: tss_step_def Let_def split: prod.splits option.splits)

lemma gamepad_step_MoveBack:
  "gamepad_step dt (a\<lparr>MoveBack := v\<rparr>) = (gamepad_step dt a)\<lparr>MoveBack := v\<rparr>"
  by (simp add: gamepad_step_def Let_def)

lemma move_step_MoveBack:
  "MoveForward a \<noteq> 0 \<Longrightarrow> EyePos (move_step dt (a\<lparr>MoveBack := v\<rparr>)) = EyePos (move_step dt a)"
  by (simp add: move_step_def Let_def localMoveVector_def)

lemma sensor_step_MoveLeft:
  "sensor_step inp (a\<lparr>MoveLeft := v\<rparr>) = (sensor_step inp a)\<lparr>MoveLeft := v\<rparr>"
  by (simp add: sensor_step_def split: prod.splits)

lemma tss_step_MoveLeft: "tss_step inp (a\<lparr>MoveLeft := v\<rparr>) = (tss_step inp a)\<lparr>MoveLeft := v\<rparr>"
  by (simp add: tss_step_def Let_def split: prod.splits option.splits)

lemma gamepad_step_MoveLeft:
  "gamepad_step dt (a\<lparr>MoveLeft := v\<rparr>) = (gamepad_step dt a)\<lparr>MoveLeft := v\<rparr>"
  by (simp add: gamepad_step_def Let_def)

lemma move_step_MoveLeft:
  "MoveRight a \<noteq> 0 \<Longrightarrow> EyePos (move_step dt (a\<lparr>MoveLeft := v\<rparr>)) = EyePos (move_step dt a)"
  by (simp add: move_step_def Let_def localMoveVector_def)

lemma forward_over_back:
  assumes f: "MoveForward a \<noteq> 0"
  shows "EyePos (OnIdle inp (a\<lparr>MoveBack := v\<rparr>)) = EyePos (OnIdle inp a)"
proof -
  let ?dt = "curtime inp - LastUpdate a"
  let ?b = "gamepad_step ?dt (tss_step inp (sensor_step inp (a\<lparr>LastUpdate := curtime inp\<rparr>)))"
  have sw: "a\<lparr>MoveBack := v, LastUpdate := curtime inp\<rparr> = a\<lparr>LastUpdate := curtime inp, MoveBack := v\<rparr>"
    by (cases a) simp
  have fb: "MoveForward ?b \<noteq> 0" using f by (simp add: step_fields)
  have "EyePos (OnIdle inp (a\<lparr>MoveBack := v\<rparr>)) = EyePos (move_step ?dt (?b\<lparr>MoveBack := v\<rparr>))"
    by (simp add: OnIdle_EyePos sw sensor_step_MoveBack tss_step_MoveBack gamepad_step_MoveBack)
  also have "\<dots> = EyePos (move_step ?dt ?b)" using fb by (rule move_step_MoveBack)
  finally show ?thesis by (simp add: OnIdle_EyePos)
qed

lemma right_over_left:
  assumes r: "MoveRight a \<noteq> 0"
  shows "EyePos (OnIdle inp (a\<lparr>MoveLeft := v\<rparr>)) = EyePos (OnIdle inp a)"
proof -
  let ?dt = "curtime inp - LastUpdate a"
  let ?b = "gamepad_step ?dt (tss_step inp (sensor_step inp (a\<lparr>LastUpdate := curtime inp\<rparr>)))"
  have sw: "a\<lparr>MoveLeft := v, LastUpdate := curtime inp\<rparr> = a\<lparr>LastUpdate := curtime inp, MoveLeft := v\<rparr>"
    by (cases a) simp
  have rb: "MoveRight ?b \<noteq> 0" using r by (simp add: step_fields)
  have "EyePos (OnIdle inp (a\<lparr>MoveLeft := v\<rparr>)) = EyePos (move_step ?dt (?b\<lparr>MoveLeft := v\<rparr>))"
    by (simp add: OnIdle_EyePos sw sensor_step_MoveLeft tss_step_MoveLeft gamepad_step_MoveLeft)
  also have "\<dots> = EyePos (move_step ?dt ?b)" using rb by (rule move_step_MoveLeft)
  finally show ?thesis by (simp add: OnIdle_EyePos)
qed

text \<open>
  C9. Whenever a movement key is down, the frame displaces the eye position by a vector of
  length \<open>MoveSpeed * dt * (3 if shift is held, else 1)\<close> (in absolute value), whatever
  the yaw and whichever keys are down; in particular forward with strafe-right gives the
  same length as forward alone. Forward takes priority over back and right over left: with
  forward down the back mask does not matter, with right down the left mask does not.
\<close>

theorem keyboard_speed_independent_of_direction:
  "(MoveForward a \<noteq> 0 \<or> MoveBack a \<noteq> 0 \<or> MoveLeft a \<noteq> 0 \<or> MoveRight a \<noteq> 0 \<longrightarrow>
      Length (vsub (EyePos (OnIdle inp a)) (EyePos a)) =
        \<bar>MoveSpeed * (curtime inp - LastUpdate a) * (if ShiftDown a then 3 else 1)\<bar>) \<and>
   (MoveForward a \<noteq> 0 \<and> MoveRight a \<noteq> 0 \<longrightarrow>
      Length (vsub (EyePos (OnIdle inp a)) (EyePos a)) =
      Length (vsub (EyePos (OnIdle inp (a\<lparr>MoveBack := 0, MoveLeft := 0, MoveRight := 0\<rparr>)))
                   (EyePos (a\<lparr>MoveBack := 0, MoveLeft := 0, MoveRight := 0\<rparr>)))) \<and>
   (MoveForward a \<noteq> 0 \<longrightarrow> EyePos (OnIdle inp (a\<lparr>MoveBack := v\<rparr>)) = EyePos (OnIdle inp a)) \<and>
   (MoveRight a \<noteq> 0 \<longrightarrow> EyePos (OnIdle inp (a\<lparr>MoveLeft := v\<rparr>)) = EyePos (OnIdle inp a))"
proof (intro conjI impI)
  assume "MoveForward a \<noteq> 0 \<or> MoveBack a \<noteq> 0 \<or> MoveLeft a \<noteq> 0 \<or> MoveRight a \<noteq> 0"
  then show "Length (vsub (EyePos (OnIdle inp a)) (EyePos a)) =
        \<bar>MoveSpeed * (curtime inp - LastUpdate a) * (if ShiftDown a then 3 else 1)\<bar>"
    by (rule keyboard_displacement_length)
next
  assume h: "MoveForward a \<noteq> 0 \<and> MoveRight a \<noteq> 0"
  let ?a' = "a\<lparr>MoveBack := 0, MoveLeft := 0, MoveRight := 0\<rparr>"
  have 1: "Length (vsub (EyePos (OnIdle inp a)) (EyePos a)) =
        \<bar>MoveSpeed * (curtime inp - LastUpdate a) * (if ShiftDown a then 3 else 1)\<bar>"
    using h by (intro keyboard_displacement_length) simp
  have "MoveForward ?a' \<noteq> 0 \<or> MoveBack ?a' \<noteq> 0 \<or> MoveLeft ?a' \<noteq> 0 \<or> MoveRight ?a' \<noteq> 0"
    using h by simp
  from keyboard_displacement_length [OF this, of inp]
  have 2: "Length (vsub (EyePos (OnIdle inp ?a')) (EyePos ?a')) =
        \<bar>MoveSpeed * (curtime inp - LastUpdate a) * (if ShiftDown a then 3 else 1)\<bar>"
    by simp
  from 1 2 show "Length (vsub (EyePos (OnIdle inp a)) (EyePos a)) =
      Length (vsub (EyePos (OnIdle inp ?a')) (EyePos ?a'))" by simp
next
  assume "MoveForward a \<noteq> 0"
  then show "EyePos (OnIdle inp (a\<lparr>MoveBack := v\<rparr>)) = EyePos (OnIdle inp a)"
    by (rule forward_over_back)
next
  assume "MoveRight a \<noteq> 0"
  then show "EyePos (OnIdle inp (a\<lparr>MoveLeft := v\<rparr>)) = EyePos (OnIdle inp a)"
    by (rule right_over_left)
qed

theorem keyboard_speed_independent_of_direction_witness:
  "Length (vsub
     (EyePos (OnIdle \<lparr>curtime = 1, hmd_euler = (0, 0, 0), tss_error = 0, tss_written = None\<rparr>
        (OnKey key_D True (OnKey key_W True (OnStartup False False 0
          (OculusRoomTinyApp Stereo_LeftRight_Multipass 0.064 PostProcessShader_Distortion))))))
     (EyePos (OnKey key_D True (OnKey key_W True (OnStartup False False 0
          (OculusRoomTinyApp Stereo_LeftRight_Multipass 0.064 PostProcessShader_Distortion))))))
   = 3"
proof -
  let ?a = "OnKey key_D True (OnKey key_W True (OnStartup False False 0
          (OculusRoomTinyApp Stereo_LeftRight_Multipass 0.064 PostProcessShader_Distortion)))"
  let ?i = "\<lparr>curtime = 1, hmd_euler = (0, 0, 0), tss_error = 0, tss_written = None\<rparr>"
  have k: "key_D \<noteq> key_Q" "key_D \<noteq> VK_ESCAPE" "key_D \<noteq> key_W" "key_D \<noteq> key_S" "key_D \<noteq> key_A"
    "key_W \<noteq> key_Q" "key_W \<noteq> VK_ESCAPE"
    by (simp_all add: key_D_def key_Q_def VK_ESCAPE_def key_W_def key_S_def key_A_def)
  have f: "MoveForward ?a = 1" "MoveRight ?a = 1" "\<not> ShiftDown ?a" "LastUpdate ?a = 0"
    by (simp_all add: OnKey_def k set_bit_if_def OnStartup_def OculusRoomTinyApp_def)
  have h: "MoveForward ?a \<noteq> 0 \<or> MoveBack ?a \<noteq> 0 \<or> MoveLeft ?a \<noteq> 0 \<or> MoveRight ?a \<noteq> 0"
    by (simp only: f) simp
  from keyboard_speed_independent_of_direction [of ?a ?i] h f
  show ?thesis by (simp add: MoveSpeed_def)
qed

section \<open>Eye height\<close>


lemma vec_y_localMoveVector: "vec_y (localMoveVector a) = 0"
  by (simp add: localMoveVector_def Let_def Normalize_def vadd_def vsub_def vneg_def
      ForwardVector_def RightVector_def)

lemma move_step_height:
  assumes "vec_y (GamepadMove a) = 0"
  shows "vec_y (EyePos (move_step dt a)) = vec_y (EyePos a)"
  using assms
  by (simp add: move_step_def Let_def vadd_def vscale_def Transform_RotationY
      vec_y_localMoveVector)

lemma OnIdle_height:
  assumes "vec_y (GamepadMove a) = 0"
  shows "vec_y (EyePos (OnIdle inp a)) = vec_y (EyePos a)"
proof -
  let ?b = "gamepad_step (curtime inp - LastUpdate a)
              (tss_step inp (sensor_step inp (a\<lparr>LastUpdate := curtime inp\<rparr>)))"
  have "vec_y (GamepadMove ?b) = 0" using assms by (simp add: step_fields)
  from move_step_height [OF this]
  show ?thesis by (simp add: OnIdle_EyePos step_fields)
qed

lemma Run_height:
  assumes "vec_y (GamepadMove a) = 0"
  shows "vec_y (EyePos (Run es a)) = vec_y (EyePos a)"
  using assms
proof (induction es arbitrary: a)
  case Nil
  then show ?case by simp
next
  case (Cons e es)
  have "vec_y (GamepadMove (dispatch e a)) = 0 \<and>
        vec_y (EyePos (dispatch e a)) = vec_y (EyePos a)"
    using Cons.prems
    by (cases e)
      (simp_all add: OnMouseMove_fields OnGamepad_fields OnKey_fields OnIdle_keeps OnIdle_height)
  then show ?case using Cons.IH [of "dispatch e a"] by simp
qed

text \<open>
  C10. Whatever events arrive after startup (gamepad reports, mouse motion, keys, frames),
  with any tracker configuration, the vertical component of \<open>EyePos\<close> stays at its initial
  value 1.6. The gamepad handler always stores a movement vector with zero vertical
  component, and a frame started with such a vector leaves the height of \<open>EyePos\<close> as it
  was, for every combination of movement keys and stick values.
\<close>

theorem eye_height_never_changes:
  "vec_y (EyePos (Run es (OnStartup sensor streaming t0 (OculusRoomTinyApp m i sh)))) = 1.6 \<and>
   vec_y (GamepadMove (OnGamepad lx ly rx ry a)) = 0 \<and>
   (vec_y (GamepadMove a) = 0 \<longrightarrow> vec_y (EyePos (OnIdle inp a)) = vec_y (EyePos a))"
proof -
  have "vec_y (EyePos (Run es (OnStartup sensor streaming t0 (OculusRoomTinyApp m i sh)))) =
        vec_y (EyePos (OnStartup sensor streaming t0 (OculusRoomTinyApp m i sh)))"
    by (rule Run_height) (simp add: OnStartup_def OculusRoomTinyApp_def)
  then show ?thesis
    by (simp add: OnStartup_def OculusRoomTinyApp_def OnGamepad_fields OnIdle_height)
qed

theorem eye_height_never_changes_witness:
  "vec_y (EyePos (Run [Key key_W True, Gamepad 1 1 0 0,
                      Idle \<lparr>curtime = 1, hmd_euler = (0, 0, 0), tss_error = 0, tss_written = None\<rparr>,
                      Key key_W False,
                      Idle \<lparr>curtime = 2, hmd_euler = (0, 0, 0), tss_error = 0, tss_written = None\<rparr>]
      (OnStartup False False 0
        (OculusRoomTinyApp Stereo_LeftRight_Multipass 0.064 PostProcessShader_Distortion)))) = 1.6 \<and>
   vec_y (EyePos (OnIdle \<lparr>curtime = 1, hmd_euler = (0, 0, 0), tss_error = 0, tss_written = None\<rparr>
      (OnGamepad 1 1 0 0 (OnStartup False False 0
        (OculusRoomTinyApp Stereo_LeftRight_Multipass 0.064 PostProcessShader_Distortion))))) = 1.6"
  using eye_height_never_changes
    [of "[Key key_W True, Gamepad 1 1 0 0,
          Idle \<lparr>curtime = 1, hmd_euler = (0, 0, 0), tss_error = 0, tss_written = None\<rparr>,
          Key key_W False,
          Idle \<lparr>curtime = 2, hmd_euler = (0, 0, 0), tss_error = 0, tss_written = None\<rparr>]"
        False False 0 Stereo_LeftRight_Multipass "0.064" PostProcessShader_Distortion
        1 1 0 0
        "OnGamepad 1 1 0 0 (OnStartup False False 0
          (OculusRoomTinyApp Stereo_LeftRight_Multipass 0.064 PostProcessShader_Distortion))"
        "\<lparr>curtime = 1, hmd_euler = (0, 0, 0), tss_error = 0, tss_written = None\<rparr>"]
  by (simp add: OnGamepad_def OnStartup_def OculusRoomTinyApp_def)

end
